theory Spec2Isabelle
  imports Main "HOL-Library.AList"
begin

section \<open>Python values used by \<^verbatim>\<open>mcp_client.py\<close>\<close>

text \<open>
  Exceptions are values. Every exception below is an instance of Python's \<^verbatim>\<open>Exception\<close>:
  \<^verbatim>\<open>AttributeError\<close> (a failed attribute lookup, carrying the attribute's name),
  \<^verbatim>\<open>IndexError\<close> (\<^verbatim>\<open>xs[0]\<close> on an empty sequence), \<^verbatim>\<open>TypeError\<close> (\<^verbatim>\<open>dict(None)\<close>, carrying
  the type of the offending value) and \<^verbatim>\<open>Raised\<close>, any exception raised inside a library
  call (its message). \<^verbatim>\<open>KeyboardInterrupt\<close>, which is not an \<^verbatim>\<open>Exception\<close>, appears only
  as an outcome of \<^verbatim>\<open>input\<close> (see \<open>input_result\<close>).
\<close>

datatype exn = AttributeError string | IndexError | TypeError string | Raised string

text \<open>
  A Python \<^verbatim>\<open>str\<close> is the list of the bytes of its UTF-8 encoding; it is ASCII when every
  byte is below 128. On ASCII strings \<^verbatim>\<open>str.upper\<close>, \<^verbatim>\<open>str.lower\<close> and \<^verbatim>\<open>str.strip\<close> are the
  functions below (letters \<open>a\<close>-\<open>z\<close> and \<open>A\<close>-\<open>Z\<close>; whitespace 0x09-0x0D and 0x1C-0x20).
  On the other strings they follow the Unicode tables and are parameters of the model
  (see \<open>env\<close>, and \<open>upper\<close>, \<open>lower\<close>, \<open>strip\<close> after it).
\<close>

definition isascii :: "string \<Rightarrow> bool" where
  "isascii s = list_all (\<lambda>c. (of_char c :: nat) < 128) s"

definition upper_char :: "char \<Rightarrow> char" where
  "upper_char c =
     (let n = (of_char c :: nat) in if 97 \<le> n \<and> n \<le> 122 then char_of (n - 32) else c)"

definition ascii_upper :: "string \<Rightarrow> string" where
  "ascii_upper s = map upper_char s"

definition lower_char :: "char \<Rightarrow> char" where
  "lower_char c =
     (let n = (of_char c :: nat) in if 65 \<le> n \<and> n \<le> 90 then char_of (n + 32) else c)"

definition ascii_lower :: "string \<Rightarrow> string" where
  "ascii_lower s = map lower_char s"

definition isspace :: "char \<Rightarrow> bool" where
  "isspace c = (let n = (of_char c :: nat) in (9 \<le> n \<and> n \<le> 13) \<or> (28 \<le> n \<and> n \<le> 32))"

definition ascii_strip :: "string \<Rightarrow> string" where
  "ascii_strip s = rev (dropWhile isspace (rev (dropWhile isspace s)))"

definition NL :: string where
  "NL = [CHR 0x0A]"

text \<open>
  A Python \<^verbatim>\<open>dict\<close> is an association list in insertion order; \<^verbatim>\<open>d[k] = v\<close> replaces the
  value of a key that is present, in place, and appends a new key at the end.
\<close>

definition setitem :: "('k \<times> 'v) list \<Rightarrow> 'k \<Rightarrow> 'v \<Rightarrow> ('k \<times> 'v) list" where
  "setitem d k v = AList.update k v d"

section \<open>Data supplied by the tool server\<close>

text \<open>
  A parameter's schema \<^verbatim>\<open>param_info\<close> is a dict read with \<^verbatim>\<open>.get('type', 'string')\<close> and
  \<^verbatim>\<open>.get('description', '')\<close>: each key is present or absent.
\<close>

record param_info =
  p_type :: "string option"
  p_description :: "string option"

text \<open>
  \<^verbatim>\<open>tool.inputSchema\<close> is a dict of which the code reads the keys \<^verbatim>\<open>'properties'\<close> (a dict,
  here the list of its items with pairwise distinct keys) and \<^verbatim>\<open>'required'\<close>. A schema
  that is \<^verbatim>\<open>None\<close> is \<open>None\<close>; an empty dict is falsy in Python and has no
  \<^verbatim>\<open>'properties'\<close> key either, so it takes the same branch as a schema without properties.
\<close>

record input_schema =
  properties :: "(string \<times> param_info) list option"
  required :: "string list option"

record tool =
  tool_name :: string
  tool_description :: "string option"
  inputSchema :: "input_schema option"

record resource =
  uri :: string
  resource_name :: string

datatype resource_contents = TextResourceContents string | BlobResourceContents string

record read_resource_result =
  contents :: "resource_contents list"

datatype content = TextContent string | ImageContent string | EmbeddedResource string

record call_tool_result =
  content :: "content list"
  isError :: bool

section \<open>Data exchanged with the model backend\<close>

text \<open>\<^verbatim>\<open>genai.protos.Schema(type=..., description=...)\<close> of one parameter.\<close>

record 'ty schema =
  schema_type :: 'ty
  schema_description :: string

text \<open>
  \<^verbatim>\<open>genai.protos.FunctionDeclaration(name, description, parameters=Schema(type, properties,
  required))\<close>.
\<close>

record 'ty function_declaration =
  fd_name :: string
  fd_description :: string
  fd_parameters_type :: 'ty
  fd_properties :: "(string \<times> 'ty schema) list"
  fd_required :: "string list"

text \<open>
  A part of a model response: a function call (its name and its \<^verbatim>\<open>args\<close> field), or
  anything else. The \<^verbatim>\<open>args\<close> field is \<open>None\<close> when the call carries no arguments
  field, and otherwise the mapping \<open>'a\<close> the model supplied, which
  \<^verbatim>\<open>dict(function_call.args)\<close> copies.
\<close>

datatype 'a part = FunctionCall string "'a option" | Text string | OtherPart

record 'a candidate =
  parts :: "'a part list"

text \<open>
  A response carries its candidates and the outcome of its \<^verbatim>\<open>.text\<close> accessor, which the
  library computes (a string, or an exception when the response has no text).
\<close>

record 'a response =
  candidates :: "'a candidate list"
  response_text :: "exn + string"

text \<open>
  What \<^verbatim>\<open>chat.send_message\<close> is given: the user's query, or a \<^verbatim>\<open>Content\<close> holding one
  \<^verbatim>\<open>FunctionResponse(name, response={'result': text})\<close>.
\<close>

datatype message = UserText string | FunctionResponse string string

section \<open>The client object and the outside world\<close>

datatype client_session = ClientSession

datatype stdio_context = StdioClient string

record MCPClient =
  session :: "client_session option"
  stdio_context :: "stdio_context option"
  available_tools :: "tool list"
  available_resources :: "resource list"

text \<open>The lines the program prints, one constructor per \<^verbatim>\<open>print\<close> call of the source.\<close>

datatype printed =
    Connected nat nat
  | CallingTool string
  | Arguments string
  | Result string
  | Warning string exn
  | Banner
  | Rule
  | Goodbye
  | GoodbyeInterrupted
  | Assistant string
  | Error exn
  | Traceback exn

text \<open>
  The trace records, in order, what the program did to the outside: lines printed and
  calls made to the tool server, the model session and the terminal.
\<close>

datatype 'a event =
    Print printed
  | ReadResource string
  | CallTool string 'a
  | SendMessage message
  | Input
  | SessionExit
  | StdioExit
  | StdioEnter
  | SessionEnter
  | Initialize
  | ListTools
  | ListResources

datatype input_result = Line string | KeyboardInterrupt | InputRaised exn

text \<open>
  The libraries the program calls are parameters: each call takes the state \<open>'w\<close> of the
  outside world (tool server, model backend, terminal) and returns its outcome, an
  exception or a value, with the new state. \<open>Type_getattr\<close> is
  \<^verbatim>\<open>getattr(genai.protos.Type, name)\<close>, \<open>None\<close> where the enum has no such member.
  \<open>str_upper\<close>, \<open>str_lower\<close> and \<open>str_strip\<close> are Python's \<^verbatim>\<open>str.upper\<close>, \<^verbatim>\<open>str.lower\<close> and
  \<^verbatim>\<open>str.strip\<close>, consulted on strings that are not ASCII.
\<close>

record ('w, 'ty, 'a) env =
  Type_OBJECT :: 'ty
  Type_getattr :: "string \<Rightarrow> 'ty option"
  json_dumps :: "'a \<Rightarrow> exn + string"
  str_upper :: "string \<Rightarrow> string"
  str_lower :: "string \<Rightarrow> string"
  str_strip :: "string \<Rightarrow> string"
  stdio_aenter :: "string \<Rightarrow> 'w \<Rightarrow> (exn + unit) \<times> 'w"
  session_aenter :: "'w \<Rightarrow> (exn + unit) \<times> 'w"
  initialize :: "'w \<Rightarrow> (exn + unit) \<times> 'w"
  list_tools :: "'w \<Rightarrow> (exn + tool list) \<times> 'w"
  list_resources :: "'w \<Rightarrow> (exn + resource list) \<times> 'w"
  read_resource :: "string \<Rightarrow> 'w \<Rightarrow> (exn + read_resource_result) \<times> 'w"
  call_tool :: "string \<Rightarrow> 'a \<Rightarrow> 'w \<Rightarrow> (exn + call_tool_result) \<times> 'w"
  start_chat :: "'ty function_declaration list \<Rightarrow> string \<Rightarrow> 'w \<Rightarrow> 'w"
  send_message :: "message \<Rightarrow> 'w \<Rightarrow> (exn + 'a response) \<times> 'w"
  input :: "'w \<Rightarrow> input_result \<times> 'w"
  session_aexit :: "'w \<Rightarrow> (exn + unit) \<times> 'w"
  stdio_aexit :: "'w \<Rightarrow> (exn + unit) \<times> 'w"

type_synonym ('w, 'a) state = "'w \<times> 'a event list"

text \<open>\<^verbatim>\<open>s.upper()\<close>, \<^verbatim>\<open>s.lower()\<close> and \<^verbatim>\<open>s.strip()\<close>.\<close>

definition upper :: "('w, 'ty, 'a) env \<Rightarrow> string \<Rightarrow> string" where
  "upper E s = (if isascii s then ascii_upper s else str_upper E s)"

definition lower :: "('w, 'ty, 'a) env \<Rightarrow> string \<Rightarrow> string" where
  "lower E s = (if isascii s then ascii_lower s else str_lower E s)"

definition strip :: "('w, 'ty, 'a) env \<Rightarrow> string \<Rightarrow> string" where
  "strip E s = (if isascii s then ascii_strip s else str_strip E s)"

section \<open>\<^verbatim>\<open>_convert_tools_for_gemini\<close>\<close>

text \<open>
  The first inner loop: \<^verbatim>\<open>properties[param_name] = {'type': ..., 'description': ...}\<close> for
  each item of the schema's properties.
\<close>

definition build_properties ::
  "('w, 'ty, 'a) env \<Rightarrow> (string \<times> param_info) list \<Rightarrow> (string \<times> string \<times> string) list" where
  "build_properties E items =
     fold (\<lambda>(param_name, param_info) properties.
             setitem properties param_name
               (upper E (case p_type param_info of None \<Rightarrow> ''string'' | Some t \<Rightarrow> t),
                (case p_description param_info of None \<Rightarrow> [] | Some d \<Rightarrow> d)))
          items []"

text \<open>
  The dict comprehension building the \<^verbatim>\<open>Schema\<close> of each property; \<^verbatim>\<open>getattr\<close> raises
  \<^verbatim>\<open>AttributeError\<close> at the first type name that is no member of the enum.
\<close>

fun schema_properties ::
  "('w, 'ty, 'a) env \<Rightarrow> (string \<times> string \<times> string) list \<Rightarrow> exn + (string \<times> 'ty schema) list" where
  "schema_properties E [] = Inr []"
| "schema_properties E ((name, (ty, descr)) # rest) =
     (case Type_getattr E ty of
        None \<Rightarrow> Inl (AttributeError ty)
      | Some t \<Rightarrow>
          (case schema_properties E rest of
             Inl e \<Rightarrow> Inl e
           | Inr ps \<Rightarrow> Inr ((name, \<lparr>schema_type = t, schema_description = descr\<rparr>) # ps)))"

text \<open>The body of the loop over the tools: the declaration of one tool.\<close>

definition convert_tool :: "('w, 'ty, 'a) env \<Rightarrow> tool \<Rightarrow> exn + 'ty function_declaration" where
  "convert_tool E t =
     (let (properties_d, required_l) =
            (case inputSchema t of
               None \<Rightarrow> ([], [])
             | Some s \<Rightarrow>
                 (case properties s of
                    None \<Rightarrow> ([], [])
                  | Some items \<Rightarrow>
                      (build_properties E items,
                       (case required s of None \<Rightarrow> [] | Some r \<Rightarrow> r))))
      in case schema_properties E properties_d of
           Inl e \<Rightarrow> Inl e
         | Inr ps \<Rightarrow>
             Inr \<lparr>fd_name = tool_name t,
                  fd_description = (case tool_description t of None \<Rightarrow> [] | Some d \<Rightarrow> d),
                  fd_parameters_type = Type_OBJECT E,
                  fd_properties = ps,
                  fd_required = required_l\<rparr>)"

fun convert_loop ::
  "('w, 'ty, 'a) env \<Rightarrow> tool list \<Rightarrow> 'ty function_declaration list
     \<Rightarrow> exn + 'ty function_declaration list" where
  "convert_loop E [] gemini_tools = Inr gemini_tools"
| "convert_loop E (t # ts) gemini_tools =
     (case convert_tool E t of
        Inl e \<Rightarrow> Inl e
      | Inr function_declaration \<Rightarrow> convert_loop E ts (gemini_tools @ [function_declaration]))"

definition convert_tools_for_gemini ::
  "('w, 'ty, 'a) env \<Rightarrow> MCPClient \<Rightarrow> exn + 'ty function_declaration list" where
  "convert_tools_for_gemini E self = convert_loop E (available_tools self) []"

section \<open>\<^verbatim>\<open>_get_resources_content\<close>\<close>

text \<open>
  \<^verbatim>\<open>xs[0].text\<close> on the contents of a resource: \<^verbatim>\<open>IndexError\<close> on an empty list,
  \<^verbatim>\<open>AttributeError\<close> on an item that has no \<^verbatim>\<open>text\<close>.
\<close>

fun first_resource_text :: "resource_contents list \<Rightarrow> exn + string" where
  "first_resource_text [] = Inl IndexError"
| "first_resource_text (TextResourceContents t # _) = Inr t"
| "first_resource_text (BlobResourceContents _ # _) = Inl (AttributeError ''text'')"

text \<open>
  The body of the \<^verbatim>\<open>try\<close>, up to the text that is appended:
  \<^verbatim>\<open>(await self.session.read_resource(resource.uri)).contents[0].text\<close>. With no session,
  \<^verbatim>\<open>self.session\<close> is \<^verbatim>\<open>None\<close> and the attribute lookup raises.
\<close>

definition fetch ::
  "('w, 'ty, 'a) env \<Rightarrow> MCPClient \<Rightarrow> string \<Rightarrow> ('w, 'a) state \<Rightarrow> (exn + string) \<times> ('w, 'a) state" where
  "fetch E self u st =
     (case st of (w, tr) \<Rightarrow>
        (case session self of
           None \<Rightarrow> (Inl (AttributeError ''read_resource''), (w, tr))
         | Some _ \<Rightarrow>
             (case read_resource E u w of
                (Inl e, w') \<Rightarrow> (Inl e, (w', tr @ [ReadResource u]))
              | (Inr result, w') \<Rightarrow>
                  (first_resource_text (contents result), (w', tr @ [ReadResource u])))))"

definition emit :: "'a event \<Rightarrow> ('w, 'a) state \<Rightarrow> ('w, 'a) state" where
  "emit ev st = (case st of (w, tr) \<Rightarrow> (w, tr @ [ev]))"

definition block :: "string \<Rightarrow> string \<Rightarrow> string" where
  "block name txt = NL @ name @ '':'' @ NL @ txt @ NL"

fun resources_loop ::
  "('w, 'ty, 'a) env \<Rightarrow> MCPClient \<Rightarrow> resource list \<Rightarrow> string \<Rightarrow> ('w, 'a) state
     \<Rightarrow> string \<times> ('w, 'a) state" where
  "resources_loop E self [] resources_text st = (resources_text, st)"
| "resources_loop E self (r # rs) resources_text st =
     (case fetch E self (uri r) st of
        (Inr txt, st') \<Rightarrow>
          resources_loop E self rs (resources_text @ block (resource_name r) txt) st'
      | (Inl e, st') \<Rightarrow>
          resources_loop E self rs resources_text (emit (Print (Warning (uri r) e)) st'))"

definition get_resources_content ::
  "('w, 'ty, 'a) env \<Rightarrow> MCPClient \<Rightarrow> ('w, 'a) state \<Rightarrow> string \<times> ('w, 'a) state" where
  "get_resources_content E self st = resources_loop E self (available_resources self) [] st"

section \<open>\<^verbatim>\<open>process_query\<close>\<close>

definition system_instruction :: "string \<Rightarrow> string" where
  "system_instruction resources_content =
     ''You are an expense tracker assistant. You have access to tools to manage expenses.'' @ NL
     @ NL
     @ ''            Available resources:'' @ NL
     @ ''            '' @ resources_content @ NL
     @ NL
     @ ''            When users ask about expenses, use the appropriate tools to help them:'' @ NL
     @ ''            - add_expense: Add new expenses'' @ NL
     @ ''            - list_expenses: View expenses in a date range'' @ NL
     @ ''            - summarize: Get expense summaries by category'' @ NL
     @ NL
     @ ''            IMPORTANT: Always use dates in YYYY-MM-DD format (e.g., 2025-10-23, not 10/23/2025).'' @ NL
     @ ''            Always provide helpful, natural responses.''"

text \<open>\<^verbatim>\<open>tool_result.content[0].text\<close>.\<close>

fun first_content_text :: "content list \<Rightarrow> exn + string" where
  "first_content_text [] = Inl IndexError"
| "first_content_text (TextContent t # _) = Inr t"
| "first_content_text (_ # _) = Inl (AttributeError ''text'')"

text \<open>
  One pass through the \<^verbatim>\<open>while\<close> loop on the current response. The outcome is an
  exception, \<open>Inr None\<close> when the loop is left (no parts, or a first part that is not a
  function call), or \<open>Inr (Some response')\<close> when the loop goes on with the model's next
  response. \<^verbatim>\<open>dict(function_call.args)\<close> raises \<^verbatim>\<open>TypeError\<close> on a call without an
  arguments field, before anything is printed.
\<close>

definition handle_response ::
  "('w, 'ty, 'a) env \<Rightarrow> MCPClient \<Rightarrow> 'a response \<Rightarrow> ('w, 'a) state
     \<Rightarrow> (exn + 'a response option) \<times> ('w, 'a) state" where
  "handle_response E self response st =
     (case candidates response of
        [] \<Rightarrow> (Inl IndexError, st)
      | c # _ \<Rightarrow>
          (case parts c of
             [] \<Rightarrow> (Inr None, st)
           | FunctionCall function_name args_field # _ \<Rightarrow>
               (case args_field of
                  None \<Rightarrow> (Inl (TypeError ''NoneType''), st)
                | Some function_args \<Rightarrow>
                    (let st1 = emit (Print (CallingTool function_name)) st in
                     case json_dumps E function_args of
                       Inl e \<Rightarrow> (Inl e, st1)
                     | Inr js \<Rightarrow>
                         (let st2 = emit (Print (Arguments js)) st1 in
                          case session self of
                            None \<Rightarrow> (Inl (AttributeError ''call_tool''), st2)
                          | Some _ \<Rightarrow>
                              (case call_tool E function_name function_args (fst st2) of
                                 (Inl e, w3) \<Rightarrow>
                                   (Inl e, (w3, snd st2 @ [CallTool function_name function_args]))
                               | (Inr tool_result, w3) \<Rightarrow>
                                   (let st3 =
                                          (w3, snd st2 @ [CallTool function_name function_args]) in
                                    case first_content_text (content tool_result) of
                                      Inl e \<Rightarrow> (Inl e, st3)
                                    | Inr txt \<Rightarrow>
                                        (let st4 = emit (Print (Result txt)) st3;
                                             msg = FunctionResponse function_name txt in
                                         case send_message E msg (fst st4) of
                                           (Inl e, w5) \<Rightarrow>
                                             (Inl e, (w5, snd st4 @ [SendMessage msg]))
                                         | (Inr response', w5) \<Rightarrow>
                                             (Inr (Some response'),
                                              (w5, snd st4 @ [SendMessage msg]))))))))
           | _ # _ \<Rightarrow> (Inr None, st)))"

text \<open>
  The \<^verbatim>\<open>while\<close> loop and the return of \<^verbatim>\<open>response.text\<close>. The model may answer with function
  calls for ever, so the loop is a partial function: \<open>None\<close> is a loop that never ends.
\<close>

partial_function (option) tool_call_loop ::
  "('w, 'ty, 'a) env \<Rightarrow> MCPClient \<Rightarrow> 'a response \<Rightarrow> ('w, 'a) state
     \<Rightarrow> ((exn + string) \<times> ('w, 'a) state) option" where
  "tool_call_loop E self response st =
     (case handle_response E self response st of
        (Inl e, st') \<Rightarrow> Some (Inl e, st')
      | (Inr None, st') \<Rightarrow> Some (response_text response, st')
      | (Inr (Some response'), st') \<Rightarrow> tool_call_loop E self response' st')"

definition process_query ::
  "('w, 'ty, 'a) env \<Rightarrow> MCPClient \<Rightarrow> string \<Rightarrow> ('w, 'a) state
     \<Rightarrow> ((exn + string) \<times> ('w, 'a) state) option" where
  "process_query E self query st =
     (case convert_tools_for_gemini E self of
        Inl e \<Rightarrow> Some (Inl e, st)
      | Inr gemini_tools \<Rightarrow>
          (case get_resources_content E self st of
             (resources_content, (w1, tr1)) \<Rightarrow>
               (let w2 = start_chat E gemini_tools (system_instruction resources_content) w1 in
                case send_message E (UserText query) w2 of
                  (Inl e, w3) \<Rightarrow> Some (Inl e, (w3, tr1 @ [SendMessage (UserText query)]))
                | (Inr response, w3) \<Rightarrow>
                    tool_call_loop E self response (w3, tr1 @ [SendMessage (UserText query)]))))"

section \<open>\<^verbatim>\<open>chat_loop\<close>\<close>

datatype control = Continue | Break

text \<open>
  One pass through \<^verbatim>\<open>while True\<close>: the \<^verbatim>\<open>try\<close> block with its two handlers. \<open>None\<close> is a
  query whose tool-call loop never ends.
\<close>

definition chat_step ::
  "('w, 'ty, 'a) env \<Rightarrow> MCPClient \<Rightarrow> ('w, 'a) state \<Rightarrow> (control \<times> ('w, 'a) state) option" where
  "chat_step E self st =
     (case input E (fst st) of
        (KeyboardInterrupt, w') \<Rightarrow>
          Some (Break, (w', snd st @ [Input, Print GoodbyeInterrupted]))
      | (InputRaised e, w') \<Rightarrow>
          Some (Continue, (w', snd st @ [Input, Print (Error e), Print (Traceback e)]))
      | (Line l, w') \<Rightarrow>
          (let user_input = strip E l; st1 = (w', snd st @ [Input]) in
           if lower E user_input \<in> set [''quit'', ''exit'', ''q'']
           then Some (Break, emit (Print Goodbye) st1)
           else if user_input = [] then Some (Continue, st1)
           else
             (case process_query E self user_input st1 of
                None \<Rightarrow> None
              | Some (Inr response, st2) \<Rightarrow> Some (Continue, emit (Print (Assistant response)) st2)
              | Some (Inl e, st2) \<Rightarrow>
                  Some (Continue, emit (Print (Traceback e)) (emit (Print (Error e)) st2)))))"

partial_function (option) chat_while ::
  "('w, 'ty, 'a) env \<Rightarrow> MCPClient \<Rightarrow> ('w, 'a) state \<Rightarrow> ('w, 'a) state option" where
  "chat_while E self st =
     (case chat_step E self st of
        None \<Rightarrow> None
      | Some (Break, st') \<Rightarrow> Some st'
      | Some (Continue, st') \<Rightarrow> chat_while E self st')"

definition chat_loop ::
  "('w, 'ty, 'a) env \<Rightarrow> MCPClient \<Rightarrow> ('w, 'a) state \<Rightarrow> ('w, 'a) state option" where
  "chat_loop E self st = chat_while E self (emit (Print Rule) (emit (Print Banner) st))"

section \<open>The session's lifetime: \<^verbatim>\<open>__init__\<close>, \<^verbatim>\<open>connect_to_server\<close>, \<^verbatim>\<open>cleanup\<close>\<close>

definition init :: MCPClient where
  "init = \<lparr>session = None, stdio_context = None, available_tools = [], available_resources = []\<rparr>"

text \<open>
  \<^verbatim>\<open>connect_to_server\<close> assigns the fields of \<^verbatim>\<open>self\<close> as it goes, so the client it leaves
  behind is returned also when a step raises.
\<close>

definition connect_to_server ::
  "('w, 'ty, 'a) env \<Rightarrow> MCPClient \<Rightarrow> string \<Rightarrow> ('w, 'a) state
     \<Rightarrow> (exn + unit) \<times> MCPClient \<times> ('w, 'a) state" where
  "connect_to_server E self server_script_path st =
     (let self1 = self\<lparr>stdio_context := Some (StdioClient server_script_path)\<rparr> in
      case stdio_aenter E server_script_path (fst st) of
        (Inl e, w1) \<Rightarrow> (Inl e, self1, (w1, snd st @ [StdioEnter]))
      | (Inr _, w1) \<Rightarrow>
          (let self2 = self1\<lparr>session := Some ClientSession\<rparr> in
           case session_aenter E w1 of
             (Inl e, w2) \<Rightarrow> (Inl e, self2, (w2, snd st @ [StdioEnter, SessionEnter]))
           | (Inr _, w2) \<Rightarrow>
               (case initialize E w2 of
                  (Inl e, w3) \<Rightarrow>
                    (Inl e, self2, (w3, snd st @ [StdioEnter, SessionEnter, Initialize]))
                | (Inr _, w3) \<Rightarrow>
                    (case list_tools E w3 of
                       (Inl e, w4) \<Rightarrow>
                         (Inl e, self2,
                          (w4, snd st @ [StdioEnter, SessionEnter, Initialize, ListTools]))
                     | (Inr tools, w4) \<Rightarrow>
                         (let self3 = self2\<lparr>available_tools := tools\<rparr> in
                          case list_resources E w4 of
                            (Inl e, w5) \<Rightarrow>
                              (Inl e, self3,
                               (w5, snd st @ [StdioEnter, SessionEnter, Initialize, ListTools,
                                              ListResources]))
                          | (Inr resources, w5) \<Rightarrow>
                              (Inr (), self3\<lparr>available_resources := resources\<rparr>,
                               (w5, snd st @ [StdioEnter, SessionEnter, Initialize, ListTools,
                                              ListResources,
                                              Print (Connected (length tools)
                                                       (length resources))])))))))"

text \<open>
  \<^verbatim>\<open>cleanup\<close> reads \<^verbatim>\<open>self.session\<close> and \<^verbatim>\<open>self.stdio_context\<close> and assigns neither: the
  client is the same object with the same fields afterwards. An exception of the first
  \<^verbatim>\<open>__aexit__\<close> leaves the second one uncalled.
\<close>

definition cleanup ::
  "('w, 'ty, 'a) env \<Rightarrow> MCPClient \<Rightarrow> ('w, 'a) state \<Rightarrow> (exn + unit) \<times> ('w, 'a) state" where
  "cleanup E self st =
     (case (case session self of
              None \<Rightarrow> (Inr (), st)
            | Some _ \<Rightarrow>
                (case session_aexit E (fst st) of
                   (r, w') \<Rightarrow> (r, (w', snd st @ [SessionExit])))) of
        (Inl e, st1) \<Rightarrow> (Inl e, st1)
      | (Inr _, st1) \<Rightarrow>
          (case stdio_context self of
             None \<Rightarrow> (Inr (), st1)
           | Some _ \<Rightarrow>
               (case stdio_aexit E (fst st1) of
                  (r, w') \<Rightarrow> (r, (w', snd st1 @ [StdioExit])))))"

section \<open>What a trace contains\<close>

fun tool_calls :: "'a event list \<Rightarrow> (string \<times> 'a) list" where
  "tool_calls [] = []"
| "tool_calls (CallTool n a # evs) = (n, a) # tool_calls evs"
| "tool_calls (_ # evs) = tool_calls evs"

fun messages_sent :: "'a event list \<Rightarrow> message list" where
  "messages_sent [] = []"
| "messages_sent (SendMessage m # evs) = m # messages_sent evs"
| "messages_sent (_ # evs) = messages_sent evs"

fun printed_lines :: "'a event list \<Rightarrow> printed list" where
  "printed_lines [] = []"
| "printed_lines (Print p # evs) = p # printed_lines evs"
| "printed_lines (_ # evs) = printed_lines evs"


text \<open>
  The outcomes of \<open>fetch\<close> on the resources in the order given, each resource paired
  with its outcome, and the state of the outside after the last of them.
\<close>

fun fetch_all ::
  "('w, 'ty, 'a) env \<Rightarrow> MCPClient \<Rightarrow> resource list \<Rightarrow> ('w, 'a) state
     \<Rightarrow> (resource \<times> (exn + string)) list \<times> ('w, 'a) state" where
  "fetch_all E self [] st = ([], st)"
| "fetch_all E self (r # rs) st =
     (case fetch E self (uri r) st of
        (out, st') \<Rightarrow>
          (case fetch_all E self rs st' of (outs, st'') \<Rightarrow> ((r, out) # outs, st'')))"

fun successes :: "(resource \<times> (exn + string)) list \<Rightarrow> (resource \<times> string) list" where
  "successes [] = []"
| "successes ((r, Inr txt) # outs) = (r, txt) # successes outs"
| "successes ((r, Inl e) # outs) = successes outs"

fun failures :: "(resource \<times> (exn + string)) list \<Rightarrow> (resource \<times> exn) list" where
  "failures [] = []"
| "failures ((r, Inl e) # outs) = (r, e) # failures outs"
| "failures ((r, Inr txt) # outs) = failures outs"

section \<open>A simulated tool server, model backend and terminal\<close>

text \<open>
  Modelled from the spec: the target type vocabulary (string, number, integer, boolean,
  object, array). The enum \<^verbatim>\<open>genai.protos.Type\<close> belongs to the model backend's library;
  the program reaches it only through \<open>Type_OBJECT\<close> and \<open>Type_getattr\<close>.
\<close>

datatype gemini_type = STRING | NUMBER | INTEGER | BOOLEAN | OBJECT | ARRAY

definition sim_Type_getattr :: "string \<Rightarrow> gemini_type option" where
  "sim_Type_getattr n =
     map_of [(''STRING'', STRING), (''NUMBER'', NUMBER), (''INTEGER'', INTEGER),
             (''BOOLEAN'', BOOLEAN), (''OBJECT'', OBJECT), (''ARRAY'', ARRAY)] n"

type_synonym sim_args = "(string \<times> int) list"

text \<open>
  The simulated outside: scripted replies of the model and of the tool server, the
  resources the server can read, the lines typed at the terminal, and whether the
  protocol session and the transport are open. The simulation is run on ASCII strings
  and on the line that holds one no-break space (U+00A0, the bytes 0xC2 0xA0), which
  \<^verbatim>\<open>str.strip\<close> empties.
\<close>

record sim_world =
  model_replies :: "(exn + sim_args response) list"
  tool_replies :: "(exn + call_tool_result) list"
  server_tools :: "tool list"
  server_resources :: "(resource \<times> (exn + read_resource_result)) list"
  typed :: "input_result list"
  session_open :: bool
  transport_open :: bool

definition sim_exit_session :: "sim_world \<Rightarrow> (exn + unit) \<times> sim_world" where
  "sim_exit_session w =
     (if session_open w then (Inr (), w\<lparr>session_open := False\<rparr>)
      else (Inl (Raised ''session is not open''), w))"

definition sim_exit_transport :: "sim_world \<Rightarrow> (exn + unit) \<times> sim_world" where
  "sim_exit_transport w =
     (if transport_open w then (Inr (), w\<lparr>transport_open := False\<rparr>)
      else (Inl (Raised ''transport is not open''), w))"

definition sim_read_resource ::
  "string \<Rightarrow> sim_world \<Rightarrow> (exn + read_resource_result) \<times> sim_world" where
  "sim_read_resource u w =
     (case map_of (map (\<lambda>(r, out). (uri r, out)) (server_resources w)) u of
        None \<Rightarrow> (Inl (Raised ''unknown resource''), w)
      | Some out \<Rightarrow> (out, w))"

definition sim_call_tool ::
  "string \<Rightarrow> sim_args \<Rightarrow> sim_world \<Rightarrow> (exn + call_tool_result) \<times> sim_world" where
  "sim_call_tool n a w =
     (case tool_replies w of
        [] \<Rightarrow> (Inl (Raised ''connection closed''), w)
      | r # rs \<Rightarrow> (r, w\<lparr>tool_replies := rs\<rparr>))"

definition sim_send_message ::
  "message \<Rightarrow> sim_world \<Rightarrow> (exn + sim_args response) \<times> sim_world" where
  "sim_send_message m w =
     (case model_replies w of
        [] \<Rightarrow> (Inl (Raised ''model unavailable''), w)
      | r # rs \<Rightarrow> (r, w\<lparr>model_replies := rs\<rparr>))"

definition sim_input :: "sim_world \<Rightarrow> input_result \<times> sim_world" where
  "sim_input w =
     (case typed w of
        [] \<Rightarrow> (KeyboardInterrupt, w)
      | l # ls \<Rightarrow> (l, w\<lparr>typed := ls\<rparr>))"

definition sim :: "(sim_world, gemini_type, sim_args) env" where
  "sim =
     \<lparr>Type_OBJECT = OBJECT,
      Type_getattr = sim_Type_getattr,
      json_dumps = (\<lambda>a. Inr ''{...}''),
      str_upper = (\<lambda>s. s),
      str_lower = (\<lambda>s. s),
      str_strip = (\<lambda>s. if s = [CHR 0xC2, CHR 0xA0] then [] else s),
      stdio_aenter = (\<lambda>p w. (Inr (), w\<lparr>transport_open := True\<rparr>)),
      session_aenter = (\<lambda>w. (Inr (), w\<lparr>session_open := True\<rparr>)),
      initialize = (\<lambda>w. (Inr (), w)),
      list_tools = (\<lambda>w. (Inr (server_tools w), w)),
      list_resources = (\<lambda>w. (Inr (map fst (server_resources w)), w)),
      read_resource = sim_read_resource,
      call_tool = sim_call_tool,
      start_chat = (\<lambda>decls instr w. w),
      send_message = sim_send_message,
      input = sim_input,
      session_aexit = sim_exit_session,
      stdio_aexit = sim_exit_transport\<rparr>"

definition sim_world0 :: sim_world where
  "sim_world0 =
     \<lparr>model_replies = [], tool_replies = [], server_tools = [], server_resources = [],
      typed = [], session_open = False, transport_open = False\<rparr>"

text \<open>
  The tool of the spec's scenario, a tool with one parameter that declares no type, a
  tool whose schema has a required list and no properties, and a tool with a parameter
  of a type outside the vocabulary.
\<close>

definition add_number :: tool where
  "add_number =
     \<lparr>tool_name = ''add_number'',
      tool_description = Some ''Add two number together'',
      inputSchema =
        Some \<lparr>properties =
                Some [(''a'', \<lparr>p_type = Some ''number'', p_description = None\<rparr>),
                      (''b'', \<lparr>p_type = Some ''number'', p_description = None\<rparr>)],
              required = Some [''a'', ''b'']\<rparr>\<rparr>"

definition untyped_tool :: tool where
  "untyped_tool =
     \<lparr>tool_name = ''note'', tool_description = None,
      inputSchema =
        Some \<lparr>properties = Some [(''body'', \<lparr>p_type = None, p_description = Some ''the note''\<rparr>)],
              required = None\<rparr>\<rparr>"

definition required_only :: tool where
  "required_only =
     \<lparr>tool_name = ''ping'', tool_description = None,
      inputSchema = Some \<lparr>properties = None, required = Some [''a'']\<rparr>\<rparr>"


definition connected :: MCPClient where
  "connected =
     \<lparr>session = Some ClientSession, stdio_context = Some (StdioClient ''server.py''),
      available_tools = [add_number], available_resources = []\<rparr>"

text \<open>Replies of the simulated model: plain text, or one function call.\<close>

definition text_reply :: "string \<Rightarrow> sim_args response" where
  "text_reply t = \<lparr>candidates = [\<lparr>parts = [Text t]\<rparr>], response_text = Inr t\<rparr>"

definition call_reply :: "string \<Rightarrow> sim_args \<Rightarrow> sim_args response" where
  "call_reply n a =
     \<lparr>candidates = [\<lparr>parts = [FunctionCall n (Some a)]\<rparr>],
      response_text = Inl (Raised ''the response has no text'')\<rparr>"


text \<open>The model asks for a tool the server never listed; the server answers with an error result.\<close>

definition world_unknown :: sim_world where
  "world_unknown =
     sim_world0
       \<lparr>model_replies := [Inr (call_reply ''delete_all'' []), Inr (text_reply ''Done.'')],
        tool_replies :=
          [Inr \<lparr>content = [TextContent ''Unknown tool: delete_all''], isError = True\<rparr>],
        session_open := True, transport_open := True\<rparr>"

text \<open>The tool reports a failure of its own; the model then asks the user.\<close>

definition world_tool_error :: sim_world where
  "world_tool_error =
     sim_world0
       \<lparr>model_replies :=
          [Inr (call_reply ''add_number'' [(''a'', 2)]), Inr (text_reply ''What is b?'')],
        tool_replies :=
          [Inr \<lparr>content = [TextContent ''Error executing tool add_number: b is required''],
                isError = True\<rparr>],
        typed := [Line ''add 2'', Line ''quit''],
        session_open := True, transport_open := True\<rparr>"

text \<open>The connection to the tool server is lost: \<^verbatim>\<open>call_tool\<close> raises.\<close>

definition world_transport_down :: sim_world where
  "world_transport_down =
     sim_world0
       \<lparr>model_replies := [Inr (call_reply ''add_number'' [(''a'', 2), (''b'', 3)])],
        tool_replies := [],
        typed := [Line ''add 2 and 3'', Line ''quit''],
        session_open := True, transport_open := True\<rparr>"

text \<open>The model answers in plain text at once.\<close>

definition world_hello :: sim_world where
  "world_hello =
     sim_world0
       \<lparr>model_replies := [Inr (text_reply ''Hello!'')],
        session_open := True, transport_open := True\<rparr>"

text \<open>The user types a line of blanks, then quits.\<close>

definition world_blank :: sim_world where
  "world_blank = sim_world0\<lparr>typed := [Line ''   '', Line ''quit'']\<rparr>"

text \<open>The user types a no-break space, then quits.\<close>

definition world_nbsp :: sim_world where
  "world_nbsp = sim_world0\<lparr>typed := [Line [CHR 0xC2, CHR 0xA0], Line ''quit'']\<rparr>"



text \<open>The tool reports a failure of its own in a result that carries no content.\<close>

definition world_empty_error :: sim_world where
  "world_empty_error =
     sim_world0
       \<lparr>model_replies := [Inr (call_reply ''add_number'' [(''a'', 2)]), Inr (text_reply ''Sorry.'')],
        tool_replies := [Inr \<lparr>content = [], isError = True\<rparr>],
        session_open := True, transport_open := True\<rparr>"

text \<open>Three resources, of which the second cannot be read.\<close>

definition categories :: resource where
  "categories = \<lparr>uri = ''expense://categories'', resource_name = ''categories''\<rparr>"

definition budget :: resource where
  "budget = \<lparr>uri = ''expense://budget'', resource_name = ''budget''\<rparr>"

definition currency :: resource where
  "currency = \<lparr>uri = ''expense://currency'', resource_name = ''currency''\<rparr>"

definition world_resources :: sim_world where
  "world_resources =
     sim_world0
       \<lparr>server_resources :=
          [(categories, Inr \<lparr>contents = [TextResourceContents ''food, rent'']\<rparr>),
           (budget, Inl (Raised ''timed out'')),
           (currency, Inr \<lparr>contents = [TextResourceContents ''EUR'']\<rparr>)],
        session_open := True, transport_open := True\<rparr>"

definition with_resources :: MCPClient where
  "with_resources = connected\<lparr>available_resources := [categories, budget, currency]\<rparr>"

text \<open>The server as \<^verbatim>\<open>connect_to_server\<close> finds it, and as it is once connected.\<close>

definition world_server :: sim_world where
  "world_server = sim_world0\<lparr>server_tools := [add_number]\<rparr>"

definition world_open :: sim_world where
  "world_open = world_server\<lparr>transport_open := True, session_open := True\<rparr>"

definition world_closed :: sim_world where
  "world_closed = world_server\<lparr>transport_open := False, session_open := False\<rparr>"

section \<open>Facts about the definitions\<close>





lemma lower_empty: "lower E [] = []"
  by (simp add: lower_def isascii_def ascii_lower_def)




lemma tool_calls_append: "tool_calls (xs @ ys) = tool_calls xs @ tool_calls ys"
  by (induction xs rule: tool_calls.induct) auto

lemma messages_sent_append: "messages_sent (xs @ ys) = messages_sent xs @ messages_sent ys"
  by (induction xs rule: messages_sent.induct) auto

lemma printed_lines_append: "printed_lines (xs @ ys) = printed_lines xs @ printed_lines ys"
  by (induction xs rule: printed_lines.induct) auto

section \<open>Schema translation\<close>

text \<open>
  Claim C8. For a tool whose \<^verbatim>\<open>inputSchema\<close> is absent or has no \<^verbatim>\<open>properties\<close> map, the
  translation succeeds: the declaration keeps the tool's name and description and has
  no parameter and an empty required list. The same holds for
  \<^verbatim>\<open>_convert_tools_for_gemini\<close> on a client whose only tool it is.
\<close>

theorem no_properties_empty_declaration:
  assumes "inputSchema t = None \<or> (\<exists>s. inputSchema t = Some s \<and> properties s = None)"
  shows "convert_tool E t =
           Inr \<lparr>fd_name = tool_name t,
                fd_description = (case tool_description t of None \<Rightarrow> [] | Some d \<Rightarrow> d),
                fd_parameters_type = Type_OBJECT E,
                fd_properties = [],
                fd_required = []\<rparr>
         \<and> convert_tools_for_gemini E (self\<lparr>available_tools := [t]\<rparr>) =
           Inr [\<lparr>fd_name = tool_name t,
                 fd_description = (case tool_description t of None \<Rightarrow> [] | Some d \<Rightarrow> d),
                 fd_parameters_type = Type_OBJECT E,
                 fd_properties = [],
                 fd_required = []\<rparr>]"
  using assms by (auto simp: convert_tool_def convert_tools_for_gemini_def)

text \<open>
  Claim C7, as amended. When the translation of a tool succeeds: a schema with a
  \<^verbatim>\<open>properties\<close> map and a \<^verbatim>\<open>required\<close> list has its required list copied as it is; a
  schema without a \<^verbatim>\<open>required\<close> list, a schema without a \<^verbatim>\<open>properties\<close> map (whether or
  not it has a \<^verbatim>\<open>required\<close> list) and an absent schema give the empty required list.
\<close>

theorem required_copied_when_properties_present:
  assumes "convert_tool E t = Inr d"
  shows "(\<forall>s items r. inputSchema t = Some s \<and> properties s = Some items \<and> required s = Some r
            \<longrightarrow> fd_required d = r)
       \<and> (\<forall>s. inputSchema t = Some s \<and> required s = None \<longrightarrow> fd_required d = [])
       \<and> (\<forall>s. inputSchema t = Some s \<and> properties s = None \<longrightarrow> fd_required d = [])
       \<and> (inputSchema t = None \<longrightarrow> fd_required d = [])"
  using assms by (auto simp: convert_tool_def split: option.splits sum.splits)


theorem no_properties_empty_declaration_witness:
  "convert_tool sim required_only =
     Inr \<lparr>fd_name = ''ping'', fd_description = [], fd_parameters_type = OBJECT,
          fd_properties = [], fd_required = []\<rparr>
   \<and> convert_tools_for_gemini sim (connected\<lparr>available_tools := [required_only]\<rparr>) =
     Inr [\<lparr>fd_name = ''ping'', fd_description = [], fd_parameters_type = OBJECT,
           fd_properties = [], fd_required = []\<rparr>]"
proof -
  have h: "inputSchema required_only = None
           \<or> (\<exists>s. inputSchema required_only = Some s \<and> properties s = None)"
    by (simp add: required_only_def)
  show ?thesis
    using no_properties_empty_declaration [OF h, of sim connected]
    by (simp add: required_only_def sim_def)
qed

text \<open>
  A schema with a \<^verbatim>\<open>required\<close> list and no \<^verbatim>\<open>properties\<close> map: the list is not copied.
\<close>

theorem required_list_counterexample:
  "inputSchema required_only = Some \<lparr>properties = None, required = Some [''a'']\<rparr>
   \<and> convert_tool sim required_only =
     Inr \<lparr>fd_name = ''ping'', fd_description = [], fd_parameters_type = OBJECT,
          fd_properties = [], fd_required = []\<rparr>"
  by (simp add: required_only_def convert_tool_def sim_def)

lemma convert_add_number:
  "convert_tool sim add_number =
     Inr \<lparr>fd_name = ''add_number'', fd_description = ''Add two number together'',
          fd_parameters_type = OBJECT,
          fd_properties = [(''a'', \<lparr>schema_type = NUMBER, schema_description = []\<rparr>),
                           (''b'', \<lparr>schema_type = NUMBER, schema_description = []\<rparr>)],
          fd_required = [''a'', ''b'']\<rparr>"
  by code_simp

lemma convert_untyped_tool:
  "convert_tool sim untyped_tool =
     Inr \<lparr>fd_name = ''note'', fd_description = [], fd_parameters_type = OBJECT,
          fd_properties = [(''body'', \<lparr>schema_type = STRING, schema_description = ''the note''\<rparr>)],
          fd_required = []\<rparr>"
  by code_simp

lemma convert_required_only:
  "convert_tool sim required_only =
     Inr \<lparr>fd_name = ''ping'', fd_description = [], fd_parameters_type = OBJECT,
          fd_properties = [], fd_required = []\<rparr>"
  by code_simp

lemma convert_no_schema:
  "convert_tool sim \<lparr>tool_name = ''now'', tool_description = None, inputSchema = None\<rparr> =
     Inr \<lparr>fd_name = ''now'', fd_description = [], fd_parameters_type = OBJECT,
          fd_properties = [], fd_required = []\<rparr>"
  by code_simp

theorem required_copied_when_properties_present_witness:
  "fd_required
     \<lparr>fd_name = ''add_number'', fd_description = ''Add two number together'',
      fd_parameters_type = OBJECT,
      fd_properties = [(''a'', \<lparr>schema_type = NUMBER, schema_description = []\<rparr>),
                       (''b'', \<lparr>schema_type = NUMBER, schema_description = []\<rparr>)],
      fd_required = [''a'', ''b'']\<rparr> = [''a'', ''b'']
   \<and> required (the (inputSchema untyped_tool)) = None
   \<and> properties (the (inputSchema required_only)) = None
   \<and> fd_required
       \<lparr>fd_name = ''ping'', fd_description = [], fd_parameters_type = OBJECT,
        fd_properties = [], fd_required = []\<rparr> = []"
  using required_copied_when_properties_present [OF convert_add_number]
    required_copied_when_properties_present [OF convert_untyped_tool]
    required_copied_when_properties_present [OF convert_required_only]
    required_copied_when_properties_present [OF convert_no_schema]
  by (simp add: add_number_def untyped_tool_def required_only_def)




section \<open>Resource aggregation\<close>

lemma fetch_all_Cons:
  "fetch_all E self (r # rs) st =
     ((r, fst (fetch E self (uri r) st)) # fst (fetch_all E self rs (snd (fetch E self (uri r) st))),
      snd (fetch_all E self rs (snd (fetch E self (uri r) st))))"
  by (simp split: prod.splits)

lemma fetch_all_map_fst: "map fst (fst (fetch_all E self rs st)) = rs"
  by (induction rs arbitrary: st) (simp_all add: fetch_all_Cons del: fetch_all.simps(2))

lemma fetch_trace:
  "printed_lines (snd (snd (fetch E self u st))) = printed_lines (snd st)
   \<and> tool_calls (snd (snd (fetch E self u st))) = tool_calls (snd st)
   \<and> messages_sent (snd (snd (fetch E self u st))) = messages_sent (snd st)"
  by (auto simp: fetch_def printed_lines_append tool_calls_append messages_sent_append
           split: prod.splits option.splits sum.splits)

lemma fetch_indep:
  "fst (fetch E self u (w, tr2)) = fst (fetch E self u (w, tr))
   \<and> fst (snd (fetch E self u (w, tr2))) = fst (snd (fetch E self u (w, tr)))"
  by (auto simp: fetch_def split: prod.splits option.splits sum.splits)

lemma fetch_all_indep:
  "fst (fetch_all E self rs (w, tr2)) = fst (fetch_all E self rs (w, tr))
   \<and> fst (snd (fetch_all E self rs (w, tr2))) = fst (snd (fetch_all E self rs (w, tr)))"
proof (induction rs arbitrary: w tr tr2)
  case Nil
  then show ?case by simp
next
  case (Cons r rs)
  obtain out w1 t1 where a: "fetch E self (uri r) (w, tr) = (out, (w1, t1))"
    by (metis surj_pair)
  obtain out2 w2 t2 where b: "fetch E self (uri r) (w, tr2) = (out2, (w2, t2))"
    by (metis surj_pair)
  from fetch_indep [of E self "uri r" w tr2 tr] a b have eq: "out2 = out" "w2 = w1"
    by simp_all
  show ?case
    using Cons.IH [of w1 t2 t1] by (simp add: fetch_all_Cons a b eq del: fetch_all.simps(2))
qed

lemma fetch_all_emit:
  "fst (fetch_all E self rs (emit ev st)) = fst (fetch_all E self rs st)
   \<and> fst (snd (fetch_all E self rs (emit ev st))) = fst (snd (fetch_all E self rs st))"
proof (cases st)
  case (Pair w tr)
  show ?thesis
    using fetch_all_indep [of E self rs w "tr @ [ev]" tr] by (simp add: Pair emit_def)
qed

lemma resources_loop_fetch_all:
  "fst (resources_loop E self rs acc st) =
     acc @ concat (map (\<lambda>(r, txt). block (resource_name r) txt)
                       (successes (fst (fetch_all E self rs st))))
   \<and> fst (snd (resources_loop E self rs acc st)) = fst (snd (fetch_all E self rs st))
   \<and> printed_lines (snd (snd (resources_loop E self rs acc st))) =
       printed_lines (snd st)
       @ map (\<lambda>(r, e). Warning (uri r) e) (failures (fst (fetch_all E self rs st)))
   \<and> tool_calls (snd (snd (resources_loop E self rs acc st))) = tool_calls (snd st)
   \<and> messages_sent (snd (snd (resources_loop E self rs acc st))) = messages_sent (snd st)"
proof (induction rs arbitrary: acc st)
  case Nil
  then show ?case by simp
next
  case (Cons r rs)
  obtain out st1 where f: "fetch E self (uri r) st = (out, st1)"
    by (cases "fetch E self (uri r) st")
  have tr: "printed_lines (snd st1) = printed_lines (snd st)"
    "tool_calls (snd st1) = tool_calls (snd st)"
    "messages_sent (snd st1) = messages_sent (snd st)"
    using fetch_trace [of E self "uri r" st] by (simp_all add: f)
  show ?case
  proof (cases out)
    case (Inl e)
    have em: "printed_lines (snd (emit (Print (Warning (uri r) e)) st1)) =
                printed_lines (snd st) @ [Warning (uri r) e]"
      "tool_calls (snd (emit (Print (Warning (uri r) e)) st1)) = tool_calls (snd st)"
      "messages_sent (snd (emit (Print (Warning (uri r) e)) st1)) = messages_sent (snd st)"
      using tr by (simp_all add: emit_def printed_lines_append tool_calls_append
                      messages_sent_append case_prod_unfold)
    show ?thesis
      using Cons.IH [of acc "emit (Print (Warning (uri r) e)) st1"]
        fetch_all_emit [of E self rs "Print (Warning (uri r) e)" st1]
      by (simp add: fetch_all_Cons f Inl em del: fetch_all.simps(2))
  next
    case (Inr body)
    show ?thesis
      using Cons.IH [of "acc @ block (resource_name r) body" st1]
      by (simp add: fetch_all_Cons f Inr tr del: fetch_all.simps(2))
  qed
qed

text \<open>
  Claim C4. \<^verbatim>\<open>_get_resources_content\<close> fetches the resources in the order of the list, each
  once; it returns the concatenation of the blocks \<^verbatim>\<open>"\n{name}:\n{content}\n"\<close> of the
  resources whose fetch succeeded, in that order; it prints one warning, with the
  resource's URI and the exception, for each fetch that failed; it returns a string in
  every case, the empty one when no fetch succeeded.
\<close>

theorem aggregation_skips_failed_fetches:
  assumes "fetch_all E self (available_resources self) st = (outs, st')"
  shows "map fst outs = available_resources self
       \<and> fst (get_resources_content E self st) =
           concat (map (\<lambda>(r, txt). [CHR 0x0A] @ resource_name r @ '':'' @ [CHR 0x0A] @ txt @ [CHR 0x0A])
                       (successes outs))
       \<and> printed_lines (snd (snd (get_resources_content E self st))) =
           printed_lines (snd st) @ map (\<lambda>(r, e). Warning (uri r) e) (failures outs)
       \<and> fst (snd (get_resources_content E self st)) = fst st'
       \<and> (successes outs = [] \<longrightarrow> fst (get_resources_content E self st) = [])"
proof -
  have b: "(\<lambda>(r, txt). block (resource_name r) txt) =
           (\<lambda>(r, txt). [CHR 0x0A] @ resource_name r @ '':'' @ [CHR 0x0A] @ txt @ [CHR 0x0A])"
    by (simp add: block_def NL_def fun_eq_iff)
  show ?thesis
    using resources_loop_fetch_all [of E self "available_resources self" "[]" st]
      fetch_all_map_fst [of E self "available_resources self" st] assms
    by (simp add: get_resources_content_def b)
qed


section \<open>The tool-call loop\<close>

lemma get_resources_content_trace:
  "get_resources_content E self st = (resources_content, (w1, tr1)) \<Longrightarrow>
   tool_calls tr1 = tool_calls (snd st) \<and> messages_sent tr1 = messages_sent (snd st)"
  using resources_loop_fetch_all [of E self "available_resources self" "[]" st]
  by (simp add: get_resources_content_def)

lemma handle_response_no_call:
  "candidates response = c # cs \<Longrightarrow> \<forall>n a ps. parts c \<noteq> FunctionCall n a # ps \<Longrightarrow>
   handle_response E self response st = (Inr None, st)"
  by (auto simp: handle_response_def split: list.splits part.splits)

lemma handle_response_call:
  assumes "candidates response = c # cs" and "parts c = FunctionCall name (Some args) # ps"
    and "json_dumps E args = Inr js" and "session self = Some s"
  shows "handle_response E self response (w, tr) =
     (case call_tool E name args w of
        (Inl e, w3) \<Rightarrow>
          (Inl e, (w3, tr @ [Print (CallingTool name), Print (Arguments js), CallTool name args]))
      | (Inr tool_result, w3) \<Rightarrow>
          (case first_content_text (content tool_result) of
             Inl e \<Rightarrow>
               (Inl e, (w3, tr @ [Print (CallingTool name), Print (Arguments js),
                                  CallTool name args]))
           | Inr txt \<Rightarrow>
               (case send_message E (FunctionResponse name txt) w3 of
                  (Inl e, w5) \<Rightarrow>
                    (Inl e, (w5, tr @ [Print (CallingTool name), Print (Arguments js),
                                       CallTool name args, Print (Result txt),
                                       SendMessage (FunctionResponse name txt)]))
                | (Inr response', w5) \<Rightarrow>
                    (Inr (Some response'),
                     (w5, tr @ [Print (CallingTool name), Print (Arguments js),
                                CallTool name args, Print (Result txt),
                                SendMessage (FunctionResponse name txt)])))))"
  using assms
  by (simp add: handle_response_def emit_def Let_def split: prod.splits sum.splits)

text \<open>
  Claim C9. When the tools translate and the model's first response does not begin with
  a function call, \<^verbatim>\<open>process_query\<close> returns the text of that response, having sent the
  model one message, the query, and having called no tool.
\<close>

theorem plain_text_single_round_trip:
  assumes "convert_tools_for_gemini E self = Inr gemini_tools"
    and "get_resources_content E self st = (resources_content, (w1, tr1))"
    and "send_message E (UserText query)
           (start_chat E gemini_tools (system_instruction resources_content) w1) =
         (Inr response, w2)"
    and "candidates response = c # cs"
    and "\<forall>n a ps. parts c \<noteq> FunctionCall n a # ps"
    and "response_text response = Inr txt"
  shows "\<exists>tr'. process_query E self query st = Some (Inr txt, (w2, tr'))
           \<and> tool_calls tr' = tool_calls (snd st)
           \<and> messages_sent tr' = messages_sent (snd st) @ [UserText query]"
proof -
  have "tool_call_loop E self response (w2, tr1 @ [SendMessage (UserText query)]) =
          Some (Inr txt, (w2, tr1 @ [SendMessage (UserText query)]))"
    by (subst tool_call_loop.simps)
       (simp add: handle_response_no_call [OF assms(4,5)] assms(6))
  then have "process_query E self query st =
               Some (Inr txt, (w2, tr1 @ [SendMessage (UserText query)]))"
    by (simp add: process_query_def assms(1,2,3))
  then show ?thesis
    using get_resources_content_trace [OF assms(2)]
    by (simp add: tool_calls_append messages_sent_append)
qed


text \<open>
  Claim C1, as amended. The loop does not compare the requested name with the tool list.
  For a response whose first part is a function call, under any name, in the tool list
  or not, with an arguments field that \<^verbatim>\<open>json.dumps\<close> serialises, and a client that holds
  a session, the one call made to the tool server in that pass of the loop is
  \<^verbatim>\<open>call_tool\<close> with that name and the model's arguments.
\<close>

theorem call_dispatched_without_validation:
  assumes "candidates response = c # cs" and "parts c = FunctionCall name (Some args) # ps"
    and "json_dumps E args = Inr js" and "session self = Some s"
  shows "tool_calls (snd (snd (handle_response E self response st))) =
           tool_calls (snd st) @ [(name, args)]"
proof (cases st)
  case (Pair w tr)
  show ?thesis
    by (simp add: Pair handle_response_call [OF assms] tool_calls_append
             split: prod.splits sum.splits)
qed

section \<open>The interactive loop\<close>

text \<open>
  Claim C10. A line that \<^verbatim>\<open>strip()\<close> leaves empty (the empty line, or a line of whitespace
  only, ASCII or not) ends the pass through the loop with nothing but the read: the loop
  goes on (it does not break), nothing is sent to \<^verbatim>\<open>process_query\<close> and nothing is
  printed; the loop continues from the next read.
\<close>

theorem blank_line_prompts_again:
  assumes "input E (fst st) = (Line l, w')" and "strip E l = []"
  shows "chat_step E self st = Some (Continue, (w', snd st @ [Input]))
       \<and> chat_while E self st = chat_while E self (w', snd st @ [Input])"
proof -
  have step: "chat_step E self st = Some (Continue, (w', snd st @ [Input]))"
    by (simp add: chat_step_def assms lower_empty)
  show ?thesis
    by (subst chat_while.simps) (simp add: step)
qed



lemma chat_while_quit:
  assumes "input E (fst st) = (Line l, w')"
    and "lower E (strip E l) \<in> set [''quit'', ''exit'', ''q'']"
  shows "chat_while E self st = Some (w', snd st @ [Input, Print Goodbye])"
proof -
  have "chat_step E self st = Some (Break, (w', snd st @ [Input, Print Goodbye]))"
    using assms by (simp add: chat_step_def Let_def emit_def)
  then show ?thesis
    by (subst chat_while.simps) simp
qed

lemma process_query_call_then_text:
  assumes "convert_tools_for_gemini E self = Inr gemini_tools"
    and "get_resources_content E self st = (resources_content, (w1, tr1))"
    and "send_message E (UserText query)
           (start_chat E gemini_tools (system_instruction resources_content) w1) =
         (Inr response1, w2)"
    and "candidates response1 = c1 # cs1"
    and "parts c1 = FunctionCall name (Some args) # ps"
    and "json_dumps E args = Inr js"
    and "session self = Some s"
    and "call_tool E name args w2 = (Inr tool_result, w3)"
    and "content tool_result = TextContent result # others"
    and "send_message E (FunctionResponse name result) w3 = (Inr response2, w4)"
    and "candidates response2 = c2 # cs2"
    and "\<forall>n a ps. parts c2 \<noteq> FunctionCall n a # ps"
  shows "process_query E self query st =
           Some (response_text response2,
                 (w4, tr1 @ [SendMessage (UserText query), Print (CallingTool name),
                             Print (Arguments js), CallTool name args, Print (Result result),
                             SendMessage (FunctionResponse name result)]))"
proof -
  let ?tr2 = "tr1 @ [SendMessage (UserText query)]"
  let ?tr3 = "tr1 @ [SendMessage (UserText query), Print (CallingTool name),
                     Print (Arguments js), CallTool name args, Print (Result result),
                     SendMessage (FunctionResponse name result)]"
  have step: "handle_response E self response1 (w2, ?tr2) = (Inr (Some response2), (w4, ?tr3))"
    by (simp add: handle_response_call [OF assms(4,5,6,7)] assms(8,9,10))
  have last: "tool_call_loop E self response2 (w4, ?tr3) =
                Some (response_text response2, (w4, ?tr3))"
    by (subst tool_call_loop.simps)
       (simp add: handle_response_no_call [OF assms(11,12)])
  have "tool_call_loop E self response1 (w2, ?tr2) = Some (response_text response2, (w4, ?tr3))"
    by (subst tool_call_loop.simps) (simp add: step last)
  then show ?thesis
    by (simp add: process_query_def assms(1,2,3))
qed

lemma convert_connected:
  "convert_tools_for_gemini sim connected =
     Inr [\<lparr>fd_name = ''add_number'', fd_description = ''Add two number together'',
           fd_parameters_type = OBJECT,
           fd_properties = [(''a'', \<lparr>schema_type = NUMBER, schema_description = []\<rparr>),
                            (''b'', \<lparr>schema_type = NUMBER, schema_description = []\<rparr>)],
           fd_required = [''a'', ''b'']\<rparr>]"
  by (simp add: convert_tools_for_gemini_def connected_def convert_add_number)

lemma resources_connected: "get_resources_content sim connected (w, tr) = ([], (w, tr))"
  by (simp add: get_resources_content_def connected_def)

lemma sim_start_chat: "start_chat sim d i w = w"
  by (simp add: sim_def)

lemma sim_send:
  "model_replies w = r # rs \<Longrightarrow> send_message sim m w = (r, w\<lparr>model_replies := rs\<rparr>)"
  by (simp add: sim_def sim_send_message_def)

lemma sim_call:
  "tool_replies w = r # rs \<Longrightarrow> call_tool sim n a w = (r, w\<lparr>tool_replies := rs\<rparr>)"
  by (simp add: sim_def sim_call_tool_def)

lemma sim_call_down:
  "tool_replies w = [] \<Longrightarrow> call_tool sim n a w = (Inl (Raised ''connection closed''), w)"
  by (simp add: sim_def sim_call_tool_def)

lemma sim_json: "json_dumps sim a = Inr ''{...}''"
  by (simp add: sim_def)

lemma session_connected: "session connected = Some ClientSession"
  by (simp add: connected_def)

lemma text_reply_plain:
  "candidates (text_reply t) = \<lparr>parts = [Text t]\<rparr> # []"
  "\<forall>n a ps. parts \<lparr>parts = [Text t :: sim_args part]\<rparr> \<noteq> FunctionCall n a # ps"
  "response_text (text_reply t) = Inr t"
  by (simp_all add: text_reply_def)

lemma call_reply_parts:
  "candidates (call_reply n a) = \<lparr>parts = [FunctionCall n (Some a)]\<rparr> # []"
  "parts \<lparr>parts = [FunctionCall n (Some a) :: sim_args part]\<rparr> = FunctionCall n (Some a) # []"
  by (simp_all add: call_reply_def)

theorem plain_text_single_round_trip_witness:
  "\<exists>tr'. process_query sim connected ''hi'' (world_hello, []) =
            Some (Inr ''Hello!'', (world_hello\<lparr>model_replies := []\<rparr>, tr'))
         \<and> tool_calls tr' = []
         \<and> messages_sent tr' = [UserText ''hi'']"
proof -
  have s: "send_message sim (UserText ''hi'')
             (start_chat sim
                [\<lparr>fd_name = ''add_number'', fd_description = ''Add two number together'',
                  fd_parameters_type = OBJECT,
                  fd_properties = [(''a'', \<lparr>schema_type = NUMBER, schema_description = []\<rparr>),
                                   (''b'', \<lparr>schema_type = NUMBER, schema_description = []\<rparr>)],
                  fd_required = [''a'', ''b'']\<rparr>]
                (system_instruction []) world_hello) =
           (Inr (text_reply ''Hello!''), world_hello\<lparr>model_replies := []\<rparr>)"
    by (simp add: sim_start_chat sim_send world_hello_def)
  show ?thesis
    using plain_text_single_round_trip
            [OF convert_connected resources_connected [of world_hello "[]"] s text_reply_plain]
    by simp
qed


lemma decls_send:
  "model_replies w = r # rs \<Longrightarrow>
   send_message sim m (start_chat sim d i w) = (r, w\<lparr>model_replies := rs\<rparr>)"
  by (simp add: sim_start_chat sim_send)



text \<open>
  The model asks for \<^verbatim>\<open>delete_all\<close>, which is not in the tool list: the call is sent to the
  tool server and the turn ends with the model's answer.
\<close>

theorem unknown_tool_counterexample:
  "''delete_all'' \<notin> set (map tool_name (available_tools connected))
   \<and> process_query sim connected ''clean up'' (world_unknown, []) =
       Some (Inr ''Done.'',
             (world_unknown\<lparr>model_replies := [], tool_replies := []\<rparr>,
              [SendMessage (UserText ''clean up''), Print (CallingTool ''delete_all''),
               Print (Arguments ''{...}''), CallTool ''delete_all'' [],
               Print (Result ''Unknown tool: delete_all''),
               SendMessage (FunctionResponse ''delete_all'' ''Unknown tool: delete_all'')]))"
proof -
  have s1: "send_message sim (UserText ''clean up'')
             (start_chat sim
                [\<lparr>fd_name = ''add_number'', fd_description = ''Add two number together'',
                  fd_parameters_type = OBJECT,
                  fd_properties = [(''a'', \<lparr>schema_type = NUMBER, schema_description = []\<rparr>),
                                   (''b'', \<lparr>schema_type = NUMBER, schema_description = []\<rparr>)],
                  fd_required = [''a'', ''b'']\<rparr>]
                (system_instruction []) world_unknown) =
           (Inr (call_reply ''delete_all'' []),
            world_unknown\<lparr>model_replies := [Inr (text_reply ''Done.'')]\<rparr>)"
    by (simp add: decls_send world_unknown_def)
  have c: "call_tool sim ''delete_all'' []
             (world_unknown\<lparr>model_replies := [Inr (text_reply ''Done.'')]\<rparr>) =
           (Inr \<lparr>content = [TextContent ''Unknown tool: delete_all''], isError = True\<rparr>,
            world_unknown\<lparr>model_replies := [Inr (text_reply ''Done.'')], tool_replies := []\<rparr>)"
    by (simp add: sim_call world_unknown_def)
  have t: "content \<lparr>content = [TextContent ''Unknown tool: delete_all''], isError = True\<rparr> =
             TextContent ''Unknown tool: delete_all'' # []"
    by simp
  have s2: "send_message sim (FunctionResponse ''delete_all'' ''Unknown tool: delete_all'')
              (world_unknown\<lparr>model_replies := [Inr (text_reply ''Done.'')], tool_replies := []\<rparr>) =
            (Inr (text_reply ''Done.''),
             world_unknown\<lparr>model_replies := [], tool_replies := []\<rparr>)"
    by (simp add: sim_send world_unknown_def)
  have "process_query sim connected ''clean up'' (world_unknown, []) =
       Some (response_text (text_reply ''Done.''),
             (world_unknown\<lparr>model_replies := [], tool_replies := []\<rparr>,
              [] @ [SendMessage (UserText ''clean up''), Print (CallingTool ''delete_all''),
               Print (Arguments ''{...}''), CallTool ''delete_all'' [],
               Print (Result ''Unknown tool: delete_all''),
               SendMessage (FunctionResponse ''delete_all'' ''Unknown tool: delete_all'')]))"
    by (rule process_query_call_then_text
            [OF convert_connected resources_connected [of world_unknown "[]"] s1 call_reply_parts
                sim_json session_connected c t s2 text_reply_plain(1,2)])
  then show ?thesis
    by (simp add: text_reply_def connected_def add_number_def)
qed

theorem call_dispatched_without_validation_witness:
  "''delete_all'' \<notin> set (map tool_name (available_tools connected))
   \<and> tool_calls (snd (snd (handle_response sim connected (call_reply ''delete_all'' [])
                              (world_unknown, [])))) = [(''delete_all'', [])]"
  using call_dispatched_without_validation
          [OF call_reply_parts [of "''delete_all''" "[]"] sim_json session_connected,
              where st = "(world_unknown, [])"]
  by (simp add: connected_def add_number_def)

lemma strip_blanks:
  "strip sim ''   '' = []" "strip sim [CHR 0xC2, CHR 0xA0] = []"
  "lower sim (strip sim ''quit'') \<in> set [''quit'', ''exit'', ''q'']"
  by code_simp+

theorem blank_line_prompts_again_witness:
  "chat_step sim connected (world_blank, []) =
     Some (Continue, (world_blank\<lparr>typed := [Line ''quit'']\<rparr>, [Input]))
   \<and> chat_while sim connected (world_blank, []) =
     Some (world_blank\<lparr>typed := []\<rparr>, [Input, Input, Print Goodbye])
   \<and> chat_step sim connected (world_nbsp, []) =
     Some (Continue, (world_nbsp\<lparr>typed := [Line ''quit'']\<rparr>, [Input]))
   \<and> chat_while sim connected (world_nbsp, []) =
     Some (world_nbsp\<lparr>typed := []\<rparr>, [Input, Input, Print Goodbye])"
proof -
  have i: "input sim (fst (world_blank, [] :: sim_args event list)) =
             (Line ''   '', world_blank\<lparr>typed := [Line ''quit'']\<rparr>)"
    by (simp add: sim_def sim_input_def world_blank_def)
  have q: "input sim (fst (world_blank\<lparr>typed := [Line ''quit'']\<rparr>, [Input :: sim_args event])) =
             (Line ''quit'', world_blank\<lparr>typed := []\<rparr>)"
    by (simp add: sim_def sim_input_def world_blank_def)
  have j: "input sim (fst (world_nbsp, [] :: sim_args event list)) =
             (Line [CHR 0xC2, CHR 0xA0], world_nbsp\<lparr>typed := [Line ''quit'']\<rparr>)"
    by (simp add: sim_def sim_input_def world_nbsp_def)
  have r: "input sim (fst (world_nbsp\<lparr>typed := [Line ''quit'']\<rparr>, [Input :: sim_args event])) =
             (Line ''quit'', world_nbsp\<lparr>typed := []\<rparr>)"
    by (simp add: sim_def sim_input_def world_nbsp_def)
  show ?thesis
    using blank_line_prompts_again [OF i strip_blanks(1), of connected]
      blank_line_prompts_again [OF j strip_blanks(2), of connected]
      chat_while_quit [OF q strip_blanks(3), of connected]
      chat_while_quit [OF r strip_blanks(3), of connected]
    by simp
qed

section \<open>Runs in the simulated world\<close>

lemma fetch_all_world_resources:
  "fetch_all sim with_resources (available_resources with_resources) (world_resources, []) =
     ([(categories, Inr ''food, rent''), (budget, Inl (Raised ''timed out'')),
       (currency, Inr ''EUR'')],
      (world_resources,
       [ReadResource ''expense://categories'', ReadResource ''expense://budget'',
        ReadResource ''expense://currency'']))"
  by (simp add: with_resources_def connected_def fetch_def sim_def sim_read_resource_def
        world_resources_def sim_world0_def categories_def budget_def currency_def)

lemma fetch_all_no_session:
  "fetch_all sim (with_resources\<lparr>session := None\<rparr>)
     (available_resources (with_resources\<lparr>session := None\<rparr>)) (world_resources, []) =
     ([(categories, Inl (AttributeError ''read_resource'')),
       (budget, Inl (AttributeError ''read_resource'')),
       (currency, Inl (AttributeError ''read_resource''))],
      (world_resources, []))"
  by (simp add: with_resources_def connected_def fetch_def)

theorem aggregation_skips_failed_fetches_witness:
  "fst (get_resources_content sim with_resources (world_resources, [])) =
     NL @ ''categories:'' @ NL @ ''food, rent'' @ NL @ NL @ ''currency:'' @ NL @ ''EUR'' @ NL
   \<and> printed_lines (snd (snd (get_resources_content sim with_resources (world_resources, [])))) =
       [Warning ''expense://budget'' (Raised ''timed out'')]
   \<and> fst (get_resources_content sim (with_resources\<lparr>session := None\<rparr>) (world_resources, [])) = []"
  using aggregation_skips_failed_fetches [OF fetch_all_world_resources]
    aggregation_skips_failed_fetches [OF fetch_all_no_session]
  by (simp add: NL_def categories_def budget_def currency_def)

section \<open>Failures of a tool invocation\<close>

text \<open>
  Claim C3, as amended. Take a response whose first part is a function call with an
  arguments field that \<^verbatim>\<open>json.dumps\<close> serialises, and a client that holds a session.
  When \<^verbatim>\<open>call_tool\<close> returns a result whose first content item is a text, as the tool
  server does for a failure of the tool itself (\<open>isError\<close> set, the text being the error),
  that text is sent to the model as the function response of that tool, and the loop
  goes on with what the model answers (or ends with the exception of \<^verbatim>\<open>send_message\<close>). When \<^verbatim>\<open>call_tool\<close> raises, as on a failure of the
  transport or the protocol, or returns a result whose first content item is no text
  (none at all, or an image), the loop ends with that exception, as it is, and nothing
  is sent to the model. In the shell, a query that ends with an exception is reported
  (the error, then the traceback) and a query that ends with an answer has it printed;
  in both cases the read loop goes on from the state the query left.
\<close>

theorem tool_failure_fed_back_or_propagated:
  assumes "candidates response = c # cs" and "parts c = FunctionCall name (Some args) # ps"
    and "json_dumps E args = Inr js" and "session self = Some s"
  shows "(\<forall>tool_result w3 err others.
            call_tool E name args (fst st) = (Inr tool_result, w3)
            \<and> content tool_result = TextContent err # others
            \<longrightarrow> messages_sent (snd (snd (handle_response E self response st))) =
                  messages_sent (snd st) @ [FunctionResponse name err]
                \<and> fst (handle_response E self response st) =
                  map_sum id Some (fst (send_message E (FunctionResponse name err) w3))
                \<and> tool_call_loop E self response st =
                  (case send_message E (FunctionResponse name err) w3 of
                     (Inl e, w5) \<Rightarrow>
                       Some (Inl e,
                             (w5, snd st @ [Print (CallingTool name), Print (Arguments js),
                                            CallTool name args, Print (Result err),
                                            SendMessage (FunctionResponse name err)]))
                   | (Inr response', w5) \<Rightarrow>
                       tool_call_loop E self response'
                         (w5, snd st @ [Print (CallingTool name), Print (Arguments js),
                                        CallTool name args, Print (Result err),
                                        SendMessage (FunctionResponse name err)])))
       \<and> (\<forall>e w3.
            call_tool E name args (fst st) = (Inl e, w3)
            \<longrightarrow> tool_call_loop E self response st =
                  Some (Inl e, (w3, snd st @ [Print (CallingTool name), Print (Arguments js),
                                              CallTool name args])))
       \<and> (\<forall>tool_result w3 e.
            call_tool E name args (fst st) = (Inr tool_result, w3)
            \<and> first_content_text (content tool_result) = Inl e
            \<longrightarrow> tool_call_loop E self response st =
                  Some (Inl e, (w3, snd st @ [Print (CallingTool name), Print (Arguments js),
                                              CallTool name args])))
       \<and> (\<forall>l w' e st2.
            input E (fst st0) = (Line l, w') \<and> strip E l \<noteq> []
            \<and> lower E (strip E l) \<notin> set [''quit'', ''exit'', ''q'']
            \<and> process_query E self (strip E l) (w', snd st0 @ [Input]) = Some (Inl e, st2)
            \<longrightarrow> chat_step E self st0 =
                  Some (Continue, (fst st2, snd st2 @ [Print (Error e), Print (Traceback e)]))
                \<and> chat_while E self st0 =
                  chat_while E self (fst st2, snd st2 @ [Print (Error e), Print (Traceback e)]))
       \<and> (\<forall>l w' answer st2.
            input E (fst st0) = (Line l, w') \<and> strip E l \<noteq> []
            \<and> lower E (strip E l) \<notin> set [''quit'', ''exit'', ''q'']
            \<and> process_query E self (strip E l) (w', snd st0 @ [Input]) = Some (Inr answer, st2)
            \<longrightarrow> chat_step E self st0 =
                  Some (Continue, (fst st2, snd st2 @ [Print (Assistant answer)]))
                \<and> chat_while E self st0 =
                  chat_while E self (fst st2, snd st2 @ [Print (Assistant answer)]))"
proof (intro conjI allI impI)
  fix tool_result w3 err others
  assume a: "call_tool E name args (fst st) = (Inr tool_result, w3)
             \<and> content tool_result = TextContent err # others"
  obtain w tr where st: "st = (w, tr)" by (cases st)
  from a show "messages_sent (snd (snd (handle_response E self response st))) =
                  messages_sent (snd st) @ [FunctionResponse name err]"
    by (simp add: st handle_response_call [OF assms] messages_sent_append
             split: prod.splits sum.splits)
  from a show "fst (handle_response E self response st) =
                  map_sum id Some (fst (send_message E (FunctionResponse name err) w3))"
    by (simp add: st handle_response_call [OF assms] split: prod.splits sum.splits)
  from a show "tool_call_loop E self response st =
                  (case send_message E (FunctionResponse name err) w3 of
                     (Inl e, w5) \<Rightarrow>
                       Some (Inl e,
                             (w5, snd st @ [Print (CallingTool name), Print (Arguments js),
                                            CallTool name args, Print (Result err),
                                            SendMessage (FunctionResponse name err)]))
                   | (Inr response', w5) \<Rightarrow>
                       tool_call_loop E self response'
                         (w5, snd st @ [Print (CallingTool name), Print (Arguments js),
                                        CallTool name args, Print (Result err),
                                        SendMessage (FunctionResponse name err)]))"
    by (subst tool_call_loop.simps)
       (simp add: st handle_response_call [OF assms] split: prod.splits sum.splits)
next
  fix e w3
  assume a: "call_tool E name args (fst st) = (Inl e, w3)"
  obtain w tr where st: "st = (w, tr)" by (cases st)
  from a have "handle_response E self response st =
     (Inl e, (w3, snd st @ [Print (CallingTool name), Print (Arguments js), CallTool name args]))"
    by (simp add: st handle_response_call [OF assms])
  then show "tool_call_loop E self response st =
                  Some (Inl e, (w3, snd st @ [Print (CallingTool name), Print (Arguments js),
                                              CallTool name args]))"
    by (subst tool_call_loop.simps) simp
next
  fix tool_result w3 e
  assume a: "call_tool E name args (fst st) = (Inr tool_result, w3)
             \<and> first_content_text (content tool_result) = Inl e"
  obtain w tr where st: "st = (w, tr)" by (cases st)
  from a have "handle_response E self response st =
     (Inl e, (w3, snd st @ [Print (CallingTool name), Print (Arguments js), CallTool name args]))"
    by (simp add: st handle_response_call [OF assms])
  then show "tool_call_loop E self response st =
                  Some (Inl e, (w3, snd st @ [Print (CallingTool name), Print (Arguments js),
                                              CallTool name args]))"
    by (subst tool_call_loop.simps) simp
next
  fix l w' e st2
  assume a: "input E (fst st0) = (Line l, w') \<and> strip E l \<noteq> []
            \<and> lower E (strip E l) \<notin> set [''quit'', ''exit'', ''q'']
            \<and> process_query E self (strip E l) (w', snd st0 @ [Input]) = Some (Inl e, st2)"
  then show step: "chat_step E self st0 =
                  Some (Continue, (fst st2, snd st2 @ [Print (Error e), Print (Traceback e)]))"
    by (cases st2) (simp add: chat_step_def Let_def emit_def)
  show "chat_while E self st0 =
          chat_while E self (fst st2, snd st2 @ [Print (Error e), Print (Traceback e)])"
    by (subst chat_while.simps) (simp add: step)
next
  fix l w' answer st2
  assume a: "input E (fst st0) = (Line l, w') \<and> strip E l \<noteq> []
            \<and> lower E (strip E l) \<notin> set [''quit'', ''exit'', ''q'']
            \<and> process_query E self (strip E l) (w', snd st0 @ [Input]) = Some (Inr answer, st2)"
  then show step: "chat_step E self st0 =
                  Some (Continue, (fst st2, snd st2 @ [Print (Assistant answer)]))"
    by (cases st2) (simp add: chat_step_def Let_def emit_def)
  show "chat_while E self st0 =
          chat_while E self (fst st2, snd st2 @ [Print (Assistant answer)])"
    by (subst chat_while.simps) (simp add: step)
qed

section \<open>Closing the session\<close>

text \<open>
  Claim C6, as amended. On a client that was never connected \<^verbatim>\<open>cleanup\<close> raises nothing
  and does nothing, the first time and the second: no exit handler is called, and the
  client holds no session and no transport before and after. On a client that holds a
  session, every call of \<^verbatim>\<open>cleanup\<close> begins by calling the session's \<^verbatim>\<open>__aexit__\<close>.
\<close>

theorem cleanup_without_connection_is_noop:
  "cleanup E init st = (Inr (), st)
   \<and> (case cleanup E init st of (r, st1) \<Rightarrow> cleanup E init st1) = (Inr (), st)
   \<and> session init = None \<and> stdio_context init = None
   \<and> (\<forall>s. session self = Some s
        \<longrightarrow> (\<exists>r w' evs. cleanup E self st = (r, (w', snd st @ SessionExit # evs))))"
  by (auto simp: cleanup_def init_def split: prod.splits sum.splits option.splits)

lemma connect_sim:
  "connect_to_server sim init ''server.py'' (world_server, []) =
     (Inr (), connected,
      (world_open,
       [StdioEnter, SessionEnter, Initialize, ListTools, ListResources, Print (Connected 1 0)]))"
proof -
  have "connect_to_server sim init ''server.py'' (world_server, []) =
          (Inr (),
           init\<lparr>stdio_context := Some (StdioClient ''server.py''),
                 session := Some ClientSession,
                 available_tools := server_tools world_server,
                 available_resources := map fst (server_resources world_server)\<rparr>,
           (world_server\<lparr>transport_open := True, session_open := True\<rparr>,
            [StdioEnter, SessionEnter, Initialize, ListTools, ListResources,
             Print (Connected (length (server_tools world_server))
                      (length (server_resources world_server)))]))"
    unfolding connect_to_server_def by (simp add: sim_def Let_def)
  then show ?thesis
    by (simp add: init_def connected_def world_server_def world_open_def sim_world0_def)
qed

text \<open>
  A client connected to the simulated server, whose session refuses to be left twice:
  the first \<^verbatim>\<open>cleanup\<close> closes session and transport, the second calls the session's
  \<^verbatim>\<open>__aexit__\<close> again and raises.
\<close>

theorem cleanup_twice_counterexample:
  "connect_to_server sim init ''server.py'' (world_server, []) =
     (Inr (), connected,
      (world_open,
       [StdioEnter, SessionEnter, Initialize, ListTools, ListResources, Print (Connected 1 0)]))
   \<and> cleanup sim connected
       (world_open,
        [StdioEnter, SessionEnter, Initialize, ListTools, ListResources, Print (Connected 1 0)]) =
     (Inr (),
      (world_closed,
       [StdioEnter, SessionEnter, Initialize, ListTools, ListResources, Print (Connected 1 0),
        SessionExit, StdioExit]))
   \<and> cleanup sim connected
       (world_closed,
        [StdioEnter, SessionEnter, Initialize, ListTools, ListResources, Print (Connected 1 0),
         SessionExit, StdioExit]) =
     (Inl (Raised ''session is not open''),
      (world_closed,
       [StdioEnter, SessionEnter, Initialize, ListTools, ListResources, Print (Connected 1 0),
        SessionExit, StdioExit, SessionExit]))"
proof (intro conjI)
  show "connect_to_server sim init ''server.py'' (world_server, []) =
     (Inr (), connected,
      (world_open,
       [StdioEnter, SessionEnter, Initialize, ListTools, ListResources, Print (Connected 1 0)]))"
    by (rule connect_sim)
qed (simp_all add: cleanup_def connected_def sim_def sim_exit_session_def
        sim_exit_transport_def world_open_def world_closed_def world_server_def sim_world0_def)

theorem cleanup_without_connection_is_noop_witness:
  "cleanup sim init (world_server, []) = (Inr (), (world_server, []))
   \<and> (case cleanup sim init (world_server, []) of (r, st1) \<Rightarrow> cleanup sim init st1) =
       (Inr (), (world_server, []))
   \<and> (\<exists>r w' evs. cleanup sim connected (world_open, []) = (r, (w', SessionExit # evs)))"
  using cleanup_without_connection_is_noop
          [of sim "(world_server, [])" connected]
    cleanup_without_connection_is_noop [of sim "(world_open, [])" connected]
  by (simp add: connected_def)


lemma process_query_call_raises:
  assumes "convert_tools_for_gemini E self = Inr gemini_tools"
    and "get_resources_content E self st = (resources_content, (w1, tr1))"
    and "send_message E (UserText query)
           (start_chat E gemini_tools (system_instruction resources_content) w1) =
         (Inr response1, w2)"
    and "candidates response1 = c1 # cs1"
    and "parts c1 = FunctionCall name (Some args) # ps"
    and "json_dumps E args = Inr js"
    and "session self = Some s"
    and "call_tool E name args w2 = (Inl e, w3)"
  shows "process_query E self query st =
           Some (Inl e,
                 (w3, tr1 @ [SendMessage (UserText query), Print (CallingTool name),
                             Print (Arguments js), CallTool name args]))"
proof -
  have "handle_response E self response1 (w2, tr1 @ [SendMessage (UserText query)]) =
          (Inl e, (w3, tr1 @ [SendMessage (UserText query), Print (CallingTool name),
                              Print (Arguments js), CallTool name args]))"
    by (simp add: handle_response_call [OF assms(4,5,6,7)] assms(8))
  then have "tool_call_loop E self response1 (w2, tr1 @ [SendMessage (UserText query)]) =
          Some (Inl e, (w3, tr1 @ [SendMessage (UserText query), Print (CallingTool name),
                                   Print (Arguments js), CallTool name args]))"
    by (subst tool_call_loop.simps) simp
  then show ?thesis
    by (simp add: process_query_def assms(1,2,3))
qed

lemma process_query_call_no_text:
  assumes "convert_tools_for_gemini E self = Inr gemini_tools"
    and "get_resources_content E self st = (resources_content, (w1, tr1))"
    and "send_message E (UserText query)
           (start_chat E gemini_tools (system_instruction resources_content) w1) =
         (Inr response1, w2)"
    and "candidates response1 = c1 # cs1"
    and "parts c1 = FunctionCall name (Some args) # ps"
    and "json_dumps E args = Inr js"
    and "session self = Some s"
    and "call_tool E name args w2 = (Inr tool_result, w3)"
    and "first_content_text (content tool_result) = Inl e"
  shows "process_query E self query st =
           Some (Inl e,
                 (w3, tr1 @ [SendMessage (UserText query), Print (CallingTool name),
                             Print (Arguments js), CallTool name args]))"
proof -
  have "handle_response E self response1 (w2, tr1 @ [SendMessage (UserText query)]) =
          (Inl e, (w3, tr1 @ [SendMessage (UserText query), Print (CallingTool name),
                              Print (Arguments js), CallTool name args]))"
    by (simp add: handle_response_call [OF assms(4,5,6,7)] assms(8,9))
  then have "tool_call_loop E self response1 (w2, tr1 @ [SendMessage (UserText query)]) =
          Some (Inl e, (w3, tr1 @ [SendMessage (UserText query), Print (CallingTool name),
                                   Print (Arguments js), CallTool name args]))"
    by (subst tool_call_loop.simps) simp
  then show ?thesis
    by (simp add: process_query_def assms(1,2,3))
qed

lemma strip_lower_add:
  "strip sim ''add 2'' = ''add 2''" "lower sim ''add 2'' = ''add 2''"
  "strip sim ''add 2 and 3'' = ''add 2 and 3''" "lower sim ''add 2 and 3'' = ''add 2 and 3''"
  by code_simp+

lemma query_tool_error:
  "process_query sim connected ''add 2'' (world_tool_error\<lparr>typed := [Line ''quit'']\<rparr>, [Input]) =
     Some (Inr ''What is b?'',
           (world_tool_error\<lparr>typed := [Line ''quit''], model_replies := [], tool_replies := []\<rparr>,
            [Input, SendMessage (UserText ''add 2''), Print (CallingTool ''add_number''),
             Print (Arguments ''{...}''), CallTool ''add_number'' [(''a'', 2)],
             Print (Result ''Error executing tool add_number: b is required''),
             SendMessage (FunctionResponse ''add_number''
                            ''Error executing tool add_number: b is required'')]))"
proof -
  have s1: "send_message sim (UserText ''add 2'')
             (start_chat sim
                [\<lparr>fd_name = ''add_number'', fd_description = ''Add two number together'',
                  fd_parameters_type = OBJECT,
                  fd_properties = [(''a'', \<lparr>schema_type = NUMBER, schema_description = []\<rparr>),
                                   (''b'', \<lparr>schema_type = NUMBER, schema_description = []\<rparr>)],
                  fd_required = [''a'', ''b'']\<rparr>]
                (system_instruction []) (world_tool_error\<lparr>typed := [Line ''quit'']\<rparr>)) =
           (Inr (call_reply ''add_number'' [(''a'', 2)]),
            world_tool_error\<lparr>typed := [Line ''quit''],
                             model_replies := [Inr (text_reply ''What is b?'')]\<rparr>)"
    by (simp add: decls_send world_tool_error_def)
  have c: "call_tool sim ''add_number'' [(''a'', 2)]
             (world_tool_error\<lparr>typed := [Line ''quit''],
                              model_replies := [Inr (text_reply ''What is b?'')]\<rparr>) =
           (Inr \<lparr>content = [TextContent ''Error executing tool add_number: b is required''],
                 isError = True\<rparr>,
            world_tool_error\<lparr>typed := [Line ''quit''],
                             model_replies := [Inr (text_reply ''What is b?'')],
                             tool_replies := []\<rparr>)"
    by (simp add: sim_call world_tool_error_def)
  have t: "content \<lparr>content = [TextContent ''Error executing tool add_number: b is required''],
                    isError = True\<rparr> =
             TextContent ''Error executing tool add_number: b is required'' # []"
    by simp
  have s2: "send_message sim
              (FunctionResponse ''add_number'' ''Error executing tool add_number: b is required'')
              (world_tool_error\<lparr>typed := [Line ''quit''],
                               model_replies := [Inr (text_reply ''What is b?'')],
                               tool_replies := []\<rparr>) =
            (Inr (text_reply ''What is b?''),
             world_tool_error\<lparr>typed := [Line ''quit''], model_replies := [], tool_replies := []\<rparr>)"
    by (simp add: sim_send world_tool_error_def)
  show ?thesis
    using process_query_call_then_text
            [OF convert_connected
                resources_connected [of "world_tool_error\<lparr>typed := [Line ''quit'']\<rparr>" "[Input]"]
                s1 call_reply_parts sim_json session_connected c t s2 text_reply_plain(1,2)]
    by (simp add: text_reply_def)
qed

lemma query_transport_down:
  "process_query sim connected ''add 2 and 3''
     (world_transport_down\<lparr>typed := [Line ''quit'']\<rparr>, [Input]) =
     Some (Inl (Raised ''connection closed''),
           (world_transport_down\<lparr>typed := [Line ''quit''], model_replies := []\<rparr>,
            [Input, SendMessage (UserText ''add 2 and 3''), Print (CallingTool ''add_number''),
             Print (Arguments ''{...}''), CallTool ''add_number'' [(''a'', 2), (''b'', 3)]]))"
proof -
  have s1: "send_message sim (UserText ''add 2 and 3'')
             (start_chat sim
                [\<lparr>fd_name = ''add_number'', fd_description = ''Add two number together'',
                  fd_parameters_type = OBJECT,
                  fd_properties = [(''a'', \<lparr>schema_type = NUMBER, schema_description = []\<rparr>),
                                   (''b'', \<lparr>schema_type = NUMBER, schema_description = []\<rparr>)],
                  fd_required = [''a'', ''b'']\<rparr>]
                (system_instruction []) (world_transport_down\<lparr>typed := [Line ''quit'']\<rparr>)) =
           (Inr (call_reply ''add_number'' [(''a'', 2), (''b'', 3)]),
            world_transport_down\<lparr>typed := [Line ''quit''], model_replies := []\<rparr>)"
    by (simp add: decls_send world_transport_down_def)
  have c: "call_tool sim ''add_number'' [(''a'', 2), (''b'', 3)]
             (world_transport_down\<lparr>typed := [Line ''quit''], model_replies := []\<rparr>) =
           (Inl (Raised ''connection closed''),
            world_transport_down\<lparr>typed := [Line ''quit''], model_replies := []\<rparr>)"
    by (simp add: sim_call_down world_transport_down_def)
  show ?thesis
    using process_query_call_raises
            [OF convert_connected
                resources_connected [of "world_transport_down\<lparr>typed := [Line ''quit'']\<rparr>" "[Input]"]
                s1 call_reply_parts sim_json session_connected c]
    by simp
qed

text \<open>
  The tool reports a failure of its own (\<open>isError\<close> set) in a result without content: the
  turn ends with the \<^verbatim>\<open>IndexError\<close> of \<^verbatim>\<open>content[0]\<close>, and the model is sent nothing but the
  query.
\<close>

theorem empty_error_result_counterexample:
  "tool_replies world_empty_error = [Inr \<lparr>content = [], isError = True\<rparr>]
   \<and> process_query sim connected ''add 2'' (world_empty_error, []) =
       Some (Inl IndexError,
             (world_empty_error\<lparr>model_replies := [Inr (text_reply ''Sorry.'')],
                                tool_replies := []\<rparr>,
              [SendMessage (UserText ''add 2''), Print (CallingTool ''add_number''),
               Print (Arguments ''{...}''), CallTool ''add_number'' [(''a'', 2)]]))
   \<and> messages_sent
       [SendMessage (UserText ''add 2''), Print (CallingTool ''add_number''),
        Print (Arguments ''{...}''), CallTool ''add_number'' [(''a'', 2 :: int)]] =
       [UserText ''add 2'']"
proof -
  have s1: "send_message sim (UserText ''add 2'')
             (start_chat sim
                [\<lparr>fd_name = ''add_number'', fd_description = ''Add two number together'',
                  fd_parameters_type = OBJECT,
                  fd_properties = [(''a'', \<lparr>schema_type = NUMBER, schema_description = []\<rparr>),
                                   (''b'', \<lparr>schema_type = NUMBER, schema_description = []\<rparr>)],
                  fd_required = [''a'', ''b'']\<rparr>]
                (system_instruction []) world_empty_error) =
           (Inr (call_reply ''add_number'' [(''a'', 2)]),
            world_empty_error\<lparr>model_replies := [Inr (text_reply ''Sorry.'')]\<rparr>)"
    by (simp add: decls_send world_empty_error_def)
  have c: "call_tool sim ''add_number'' [(''a'', 2)]
             (world_empty_error\<lparr>model_replies := [Inr (text_reply ''Sorry.'')]\<rparr>) =
           (Inr \<lparr>content = [], isError = True\<rparr>,
            world_empty_error\<lparr>model_replies := [Inr (text_reply ''Sorry.'')],
                              tool_replies := []\<rparr>)"
    by (simp add: sim_call world_empty_error_def)
  have t: "first_content_text (content \<lparr>content = [], isError = True\<rparr>) = Inl IndexError"
    by simp
  have "process_query sim connected ''add 2'' (world_empty_error, []) =
       Some (Inl IndexError,
             (world_empty_error\<lparr>model_replies := [Inr (text_reply ''Sorry.'')],
                                tool_replies := []\<rparr>,
              [] @ [SendMessage (UserText ''add 2''), Print (CallingTool ''add_number''),
               Print (Arguments ''{...}''), CallTool ''add_number'' [(''a'', 2)]]))"
    by (rule process_query_call_no_text
              [OF convert_connected resources_connected [of world_empty_error "[]"] s1
                  call_reply_parts sim_json session_connected c t])
  then show ?thesis
    by (simp add: world_empty_error_def)
qed

theorem tool_failure_fed_back_or_propagated_witness:
  "messages_sent (snd (snd (handle_response sim connected (call_reply ''add_number'' [(''a'', 2)])
       (world_tool_error\<lparr>model_replies := [Inr (text_reply ''What is b?'')]\<rparr>, [])))) =
     [FunctionResponse ''add_number'' ''Error executing tool add_number: b is required'']
   \<and> fst (handle_response sim connected (call_reply ''add_number'' [(''a'', 2)])
       (world_tool_error\<lparr>model_replies := [Inr (text_reply ''What is b?'')]\<rparr>, [])) =
     Inr (Some (text_reply ''What is b?''))
   \<and> tool_call_loop sim connected (call_reply ''add_number'' [(''a'', 2), (''b'', 3)])
       (world_transport_down\<lparr>model_replies := []\<rparr>, []) =
     Some (Inl (Raised ''connection closed''),
           (world_transport_down\<lparr>model_replies := []\<rparr>,
            [Print (CallingTool ''add_number''), Print (Arguments ''{...}''),
             CallTool ''add_number'' [(''a'', 2), (''b'', 3)]]))
   \<and> tool_call_loop sim connected (call_reply ''add_number'' [(''a'', 2)])
       (world_empty_error\<lparr>model_replies := [Inr (text_reply ''Sorry.'')]\<rparr>, []) =
     Some (Inl IndexError,
           (world_empty_error\<lparr>model_replies := [Inr (text_reply ''Sorry.'')], tool_replies := []\<rparr>,
            [Print (CallingTool ''add_number''), Print (Arguments ''{...}''),
             CallTool ''add_number'' [(''a'', 2)]]))
   \<and> chat_step sim connected (world_transport_down, []) =
     Some (Continue,
           (world_transport_down\<lparr>typed := [Line ''quit''], model_replies := []\<rparr>,
            [Input, SendMessage (UserText ''add 2 and 3''), Print (CallingTool ''add_number''),
             Print (Arguments ''{...}''), CallTool ''add_number'' [(''a'', 2), (''b'', 3)],
             Print (Error (Raised ''connection closed'')),
             Print (Traceback (Raised ''connection closed''))]))
   \<and> chat_while sim connected (world_transport_down, []) =
     Some (world_transport_down\<lparr>typed := [], model_replies := []\<rparr>,
           [Input, SendMessage (UserText ''add 2 and 3''), Print (CallingTool ''add_number''),
            Print (Arguments ''{...}''), CallTool ''add_number'' [(''a'', 2), (''b'', 3)],
            Print (Error (Raised ''connection closed'')),
            Print (Traceback (Raised ''connection closed'')), Input, Print Goodbye])
   \<and> chat_step sim connected (world_tool_error, []) =
     Some (Continue,
           (world_tool_error\<lparr>typed := [Line ''quit''], model_replies := [], tool_replies := []\<rparr>,
            [Input, SendMessage (UserText ''add 2''), Print (CallingTool ''add_number''),
             Print (Arguments ''{...}''), CallTool ''add_number'' [(''a'', 2)],
             Print (Result ''Error executing tool add_number: b is required''),
             SendMessage (FunctionResponse ''add_number''
                            ''Error executing tool add_number: b is required''),
             Print (Assistant ''What is b?'')]))
   \<and> chat_while sim connected (world_tool_error, []) =
     Some (world_tool_error\<lparr>typed := [], model_replies := [], tool_replies := []\<rparr>,
           [Input, SendMessage (UserText ''add 2''), Print (CallingTool ''add_number''),
            Print (Arguments ''{...}''), CallTool ''add_number'' [(''a'', 2)],
            Print (Result ''Error executing tool add_number: b is required''),
            SendMessage (FunctionResponse ''add_number''
                           ''Error executing tool add_number: b is required''),
            Print (Assistant ''What is b?''), Input, Print Goodbye])"
proof -
  note A = tool_failure_fed_back_or_propagated
             [OF call_reply_parts [of "''add_number''" "[(''a'', 2)]"] sim_json session_connected,
              where st = "(world_tool_error\<lparr>model_replies := [Inr (text_reply ''What is b?'')]\<rparr>, [])"
                and ?st0.0 = "(world_tool_error, [])"]
  note B = tool_failure_fed_back_or_propagated
             [OF call_reply_parts [of "''add_number''" "[(''a'', 2), (''b'', 3)]"] sim_json
                 session_connected,
              where st = "(world_transport_down\<lparr>model_replies := []\<rparr>, [])"
                and ?st0.0 = "(world_transport_down, [])"]
  note C = tool_failure_fed_back_or_propagated
             [OF call_reply_parts [of "''add_number''" "[(''a'', 2)]"] sim_json session_connected,
              where st = "(world_empty_error\<lparr>model_replies := [Inr (text_reply ''Sorry.'')]\<rparr>, [])"
                and ?st0.0 = "(world_empty_error, [])"]
  have c: "call_tool sim ''add_number'' [(''a'', 2)]
             (fst (world_tool_error\<lparr>model_replies := [Inr (text_reply ''What is b?'')]\<rparr>,
                   [] :: sim_args event list)) =
           (Inr \<lparr>content = [TextContent ''Error executing tool add_number: b is required''],
                 isError = True\<rparr>,
            world_tool_error\<lparr>model_replies := [Inr (text_reply ''What is b?'')],
                             tool_replies := []\<rparr>)
         \<and> content \<lparr>content = [TextContent ''Error executing tool add_number: b is required''],
                    isError = True\<rparr> =
             TextContent ''Error executing tool add_number: b is required'' # []"
    by (simp add: sim_call world_tool_error_def)
  have s2: "send_message sim
              (FunctionResponse ''add_number'' ''Error executing tool add_number: b is required'')
              (world_tool_error\<lparr>model_replies := [Inr (text_reply ''What is b?'')],
                               tool_replies := []\<rparr>) =
            (Inr (text_reply ''What is b?''),
             world_tool_error\<lparr>model_replies := [], tool_replies := []\<rparr>)"
    by (simp add: sim_send world_tool_error_def)
  have 1: "messages_sent (snd (snd (handle_response sim connected
              (call_reply ''add_number'' [(''a'', 2)])
              (world_tool_error\<lparr>model_replies := [Inr (text_reply ''What is b?'')]\<rparr>, [])))) =
            [FunctionResponse ''add_number'' ''Error executing tool add_number: b is required'']
         \<and> fst (handle_response sim connected (call_reply ''add_number'' [(''a'', 2)])
              (world_tool_error\<lparr>model_replies := [Inr (text_reply ''What is b?'')]\<rparr>, [])) =
            Inr (Some (text_reply ''What is b?''))"
    using A [THEN conjunct1, rule_format, OF c] by (simp add: s2)
  have d: "call_tool sim ''add_number'' [(''a'', 2), (''b'', 3)]
             (fst (world_transport_down\<lparr>model_replies := []\<rparr>, [] :: sim_args event list)) =
           (Inl (Raised ''connection closed''), world_transport_down\<lparr>model_replies := []\<rparr>)"
    by (simp add: sim_call_down world_transport_down_def)
  have 2: "tool_call_loop sim connected (call_reply ''add_number'' [(''a'', 2), (''b'', 3)])
             (world_transport_down\<lparr>model_replies := []\<rparr>, []) =
           Some (Inl (Raised ''connection closed''),
                 (world_transport_down\<lparr>model_replies := []\<rparr>,
                  [Print (CallingTool ''add_number''), Print (Arguments ''{...}''),
                   CallTool ''add_number'' [(''a'', 2), (''b'', 3)]]))"
    using B [THEN conjunct2, THEN conjunct1, rule_format, OF d] by simp
  have e: "call_tool sim ''add_number'' [(''a'', 2)]
             (fst (world_empty_error\<lparr>model_replies := [Inr (text_reply ''Sorry.'')]\<rparr>,
                   [] :: sim_args event list)) =
           (Inr \<lparr>content = [], isError = True\<rparr>,
            world_empty_error\<lparr>model_replies := [Inr (text_reply ''Sorry.'')], tool_replies := []\<rparr>)
         \<and> first_content_text (content \<lparr>content = [], isError = True\<rparr>) = Inl IndexError"
    by (simp add: sim_call world_empty_error_def)
  have 3: "tool_call_loop sim connected (call_reply ''add_number'' [(''a'', 2)])
       (world_empty_error\<lparr>model_replies := [Inr (text_reply ''Sorry.'')]\<rparr>, []) =
     Some (Inl IndexError,
           (world_empty_error\<lparr>model_replies := [Inr (text_reply ''Sorry.'')], tool_replies := []\<rparr>,
            [Print (CallingTool ''add_number''), Print (Arguments ''{...}''),
             CallTool ''add_number'' [(''a'', 2)]]))"
    using C [THEN conjunct2, THEN conjunct2, THEN conjunct1, rule_format, OF e] by simp
  have i4: "input sim (fst (world_transport_down, [] :: sim_args event list)) =
              (Line ''add 2 and 3'', world_transport_down\<lparr>typed := [Line ''quit'']\<rparr>)
            \<and> strip sim ''add 2 and 3'' \<noteq> []
            \<and> lower sim (strip sim ''add 2 and 3'') \<notin> set [''quit'', ''exit'', ''q'']
            \<and> process_query sim connected (strip sim ''add 2 and 3'')
                (world_transport_down\<lparr>typed := [Line ''quit'']\<rparr>,
                 snd (world_transport_down, [] :: sim_args event list) @ [Input]) =
              Some (Inl (Raised ''connection closed''),
                    (world_transport_down\<lparr>typed := [Line ''quit''], model_replies := []\<rparr>,
                     [Input, SendMessage (UserText ''add 2 and 3''),
                      Print (CallingTool ''add_number''), Print (Arguments ''{...}''),
                      CallTool ''add_number'' [(''a'', 2), (''b'', 3)]]))"
    by (simp add: strip_lower_add query_transport_down)
       (simp add: sim_def sim_input_def world_transport_down_def)
  note 4 = B [THEN conjunct2, THEN conjunct2, THEN conjunct2, THEN conjunct1, rule_format, OF i4]
  have q4: "input sim
              (fst (world_transport_down\<lparr>typed := [Line ''quit''], model_replies := []\<rparr>,
                    [Input, SendMessage (UserText ''add 2 and 3''),
                     Print (CallingTool ''add_number''), Print (Arguments ''{...}''),
                     CallTool ''add_number'' [(''a'', 2), (''b'', 3)],
                     Print (Error (Raised ''connection closed'')),
                     Print (Traceback (Raised ''connection closed''))])) =
            (Line ''quit'', world_transport_down\<lparr>typed := [], model_replies := []\<rparr>)"
    by (simp add: sim_def sim_input_def world_transport_down_def)
  note run4 = chat_while_quit [OF q4 strip_blanks(3), of connected]
  have i5: "input sim (fst (world_tool_error, [] :: sim_args event list)) =
              (Line ''add 2'', world_tool_error\<lparr>typed := [Line ''quit'']\<rparr>)
            \<and> strip sim ''add 2'' \<noteq> []
            \<and> lower sim (strip sim ''add 2'') \<notin> set [''quit'', ''exit'', ''q'']
            \<and> process_query sim connected (strip sim ''add 2'')
                (world_tool_error\<lparr>typed := [Line ''quit'']\<rparr>,
                 snd (world_tool_error, [] :: sim_args event list) @ [Input]) =
              Some (Inr ''What is b?'',
           (world_tool_error\<lparr>typed := [Line ''quit''], model_replies := [], tool_replies := []\<rparr>,
            [Input, SendMessage (UserText ''add 2''), Print (CallingTool ''add_number''),
             Print (Arguments ''{...}''), CallTool ''add_number'' [(''a'', 2)],
             Print (Result ''Error executing tool add_number: b is required''),
             SendMessage (FunctionResponse ''add_number''
                            ''Error executing tool add_number: b is required'')]))"
    by (simp add: strip_lower_add query_tool_error)
       (simp add: sim_def sim_input_def world_tool_error_def)
  note 5 = A [THEN conjunct2, THEN conjunct2, THEN conjunct2, THEN conjunct2, rule_format, OF i5]
  have q5: "input sim
              (fst (world_tool_error\<lparr>typed := [Line ''quit''], model_replies := [],
                                     tool_replies := []\<rparr>,
                    [Input, SendMessage (UserText ''add 2''), Print (CallingTool ''add_number''),
                     Print (Arguments ''{...}''), CallTool ''add_number'' [(''a'', 2)],
                     Print (Result ''Error executing tool add_number: b is required''),
                     SendMessage (FunctionResponse ''add_number''
                                    ''Error executing tool add_number: b is required''),
                     Print (Assistant ''What is b?'')])) =
            (Line ''quit'', world_tool_error\<lparr>typed := [], model_replies := [], tool_replies := []\<rparr>)"
    by (simp add: sim_def sim_input_def world_tool_error_def)
  note run5 = chat_while_quit [OF q5 strip_blanks(3), of connected]
  from 1 2 3 4 run4 5 run5 show ?thesis by simp
qed

end
